theory Spec2Isabelle
  imports Complex_Main
begin

section \<open>Data model\<close>

text \<open>
  The component works on JavaScript numbers. They are modelled as mathematical reals
  (integers for the frame counter \<open>life\<close>): rounding, infinities and NaN are outside the
  model. \<open>Date.now()\<close>, \<open>Math.random()\<close>, the canvas size and
  \<open>window.devicePixelRatio\<close> are read from the surroundings; the model takes each value
  read as an explicit argument.
\<close>

record Coords2D =
  x :: real
  y :: real

record NormalizedLandmark = Coords2D +
  z :: real

record HandVelocity = Coords2D +
  timestamp :: real

record PageCoords =
  pageX :: real
  pageY :: real

record Color =
  r :: real
  g :: real
  b :: real

record Canvas =
  width :: real
  height :: real

record Env =
  fluidCanvasElement :: Canvas
  devicePixelRatio :: real

text \<open>\<open>window.devicePixelRatio || 1\<close>: a falsy ratio (zero) is replaced by one.\<close>

definition pixelRatio :: "Env \<Rightarrow> real" where
  "pixelRatio env = (if devicePixelRatio env = 0 then 1 else devicePixelRatio env)"

text \<open>
  The conversion of page coordinates to simulation coordinates is written out in each
  function of the source that needs it (\<open>coords.pageX * pixelRatio / canvas.width\<close> and
  \<open>1.0 - (coords.pageY * pixelRatio / canvas.height)\<close>); the model names the two
  expressions once.
\<close>

definition normalizedX :: "Env \<Rightarrow> 'a PageCoords_scheme \<Rightarrow> real" where
  "normalizedX env coords = pageX coords * pixelRatio env / width (fluidCanvasElement env)"

definition normalizedY :: "Env \<Rightarrow> 'a PageCoords_scheme \<Rightarrow> real" where
  "normalizedY env coords = 1 - (pageY coords * pixelRatio env / height (fluidCanvasElement env))"

section \<open>Velocity tracker\<close>

definition VELOCITY_HISTORY_SIZE :: nat where
  "VELOCITY_HISTORY_SIZE = 5"

definition THROW_VELOCITY_THRESHOLD :: real where
  "THROW_VELOCITY_THRESHOLD = 8"

text \<open>
  \<open>while (a.length > n) { a.shift(); }\<close>: the loop of \<open>updateHandVelocityHistory\<close> and of
  \<open>throwMagicBall\<close>. \<open>shift\<close> removes the first element.
\<close>

function shiftWhileLonger :: "nat \<Rightarrow> 'a list \<Rightarrow> 'a list" where
  "shiftWhileLonger n xs = (if length xs > n then shiftWhileLonger n (tl xs) else xs)"
  by pat_completeness auto
termination
  by (relation "measure (\<lambda>(n, xs). length xs)") auto

declare shiftWhileLonger.simps [simp del]

definition updateHandVelocityHistory ::
  "Env \<Rightarrow> real \<Rightarrow> HandVelocity list \<Rightarrow> 'a PageCoords_scheme \<Rightarrow> HandVelocity list" where
  "updateHandVelocityHistory env now history coords =
     shiftWhileLonger VELOCITY_HISTORY_SIZE
       (history @ [\<lparr>x = normalizedX env coords, y = normalizedY env coords, timestamp = now\<rparr>])"

text \<open>A sequence of record calls on one history, each with its clock reading.\<close>

fun recordCalls :: "Env \<Rightarrow> HandVelocity list \<Rightarrow> (real \<times> PageCoords) list \<Rightarrow> HandVelocity list" where
  "recordCalls env history [] = history"
| "recordCalls env history ((now, coords) # calls) =
     recordCalls env (updateHandVelocityHistory env now history coords) calls"

text \<open>
  \<open>detectThrowingMotion\<close>: the loop \<open>for (let i = 1; i < history.length; i++)\<close> with its
  three accumulators. The division by \<open>dt\<close> is guarded by \<open>dt > 0\<close>.
\<close>

function velocityLoop ::
  "HandVelocity list \<Rightarrow> nat \<Rightarrow> real \<Rightarrow> real \<Rightarrow> nat \<Rightarrow> real \<times> real \<times> nat" where
  "velocityLoop history i avgVx avgVy validSamples =
     (if i < length history then
        (let dt = (timestamp (history ! i) - timestamp (history ! (i - 1))) / 1000 in
         if dt > 0 \<and> dt < 0.1 then
           (let pvx = (x (history ! i) - x (history ! (i - 1))) / dt;
                pvy = (y (history ! i) - y (history ! (i - 1))) / dt
            in velocityLoop history (i + 1) (avgVx + pvx) (avgVy + pvy) (validSamples + 1))
         else velocityLoop history (i + 1) avgVx avgVy validSamples)
      else (avgVx, avgVy, validSamples))"
  by pat_completeness auto
termination
  by (relation "measure (\<lambda>(history, i, _). length history - i)") auto

declare velocityLoop.simps [simp del]

definition detectThrowingMotion :: "HandVelocity list \<Rightarrow> (real \<times> real) option" where
  "detectThrowingMotion history =
     (if length history < 3 then None
      else case velocityLoop history 1 0 0 0 of (sumVx, sumVy, validSamples) \<Rightarrow>
        if validSamples = 0 then None
        else
          (let avgVx = sumVx / real validSamples;
               avgVy = sumVy / real validSamples;
               speed = sqrt (avgVx * avgVx + avgVy * avgVy)
           in if speed > THROW_VELOCITY_THRESHOLD then Some (avgVx, avgVy) else None))"

text \<open>
  The same quantity in the words of the specification: the velocities of the consecutive
  pairs whose time delta lies strictly between 0 and 0.1 seconds, and their average.
\<close>

definition pairDt :: "HandVelocity \<times> HandVelocity \<Rightarrow> real" where
  "pairDt pq = (timestamp (snd pq) - timestamp (fst pq)) / 1000"

definition validPairs :: "HandVelocity list \<Rightarrow> (HandVelocity \<times> HandVelocity) list" where
  "validPairs history =
     filter (\<lambda>pq. 0 < pairDt pq \<and> pairDt pq < 0.1) (zip history (tl history))"

definition pairVelocity :: "HandVelocity \<times> HandVelocity \<Rightarrow> real \<times> real" where
  "pairVelocity pq =
     ((x (snd pq) - x (fst pq)) / pairDt pq, (y (snd pq) - y (fst pq)) / pairDt pq)"

definition averageVelocity :: "HandVelocity list \<Rightarrow> real \<times> real" where
  "averageVelocity history =
     (let vs = map pairVelocity (validPairs history) in
      (sum_list (map fst vs) / real (length vs), sum_list (map snd vs) / real (length vs)))"

definition magnitude :: "real \<times> real \<Rightarrow> real" where
  "magnitude v = sqrt (fst v * fst v + snd v * snd v)"

section \<open>Projectile engine\<close>

record MagicBall = Coords2D +
  vx :: real
  vy :: real
  color :: Color
  life :: int
  maxLife :: int
  radius :: real

text \<open>The constructor: \<open>maxLife\<close> is 120 frames, \<open>life\<close> starts at \<open>maxLife\<close>.\<close>

definition newMagicBall :: "real \<Rightarrow> real \<Rightarrow> real \<Rightarrow> real \<Rightarrow> Color \<Rightarrow> MagicBall" where
  "newMagicBall px py pvx pvy c =
     (let ml = 120 in
      \<lparr>x = px, y = py, vx = pvx, vy = pvy, color = c, life = ml, maxLife = ml, radius = 0.03\<rparr>)"

text \<open>
  \<open>MagicBall.update\<close> mutates the ball and returns \<open>this.life > 0\<close>; the model returns the
  mutated ball with that flag. The assignments are kept in the order of the source.
\<close>

definition update :: "MagicBall \<Rightarrow> MagicBall \<times> bool" where
  "update ball =
     (let b1 = ball\<lparr>x := x ball + vx ball * 0.016\<rparr>;
          b2 = b1\<lparr>y := y b1 + vy b1 * 0.016\<rparr>;
          b3 = b2\<lparr>vy := vy b2 + 0.5\<rparr>;
          b4 = (if x b3 < 0 \<or> x b3 > 1
                then (b3\<lparr>vx := vx b3 * (- 0.8)\<rparr>)\<lparr>x := max 0 (min 1 (x b3))\<rparr>
                else b3);
          b5 = b4\<lparr>life := life b4 - 1\<rparr>
      in (b5, life b5 > 0))"

text \<open>
  The calls made on the external fluid simulation are collected in a list, in the order
  the source makes them.
\<close>

record Touch = PageCoords +
  "identifier" :: int
  screenX :: real
  screenY :: real
  clientX :: real
  clientY :: real

record TouchEvent =
  type :: string
  touches :: "Touch list"

datatype FluidCall =
    createSplat real real real real Color
  | sendTouchStart TouchEvent
  | sendTouchMove TouchEvent
  | sendTouchEnd TouchEvent

definition effectColor :: "MagicBall \<Rightarrow> Color" where
  "effectColor ball =
     (let opacity = real_of_int (life ball) / real_of_int (maxLife ball) in
      \<lparr>r = r (color ball) * opacity * 0.8,
       g = g (color ball) * opacity * 0.8,
       b = b (color ball) * opacity * 0.8\<rparr>)"

text \<open>The body of the loop of \<open>createFluidEffect\<close> for one value of \<open>i\<close>.\<close>

definition trailPoint :: "MagicBall \<Rightarrow> nat \<Rightarrow> real \<times> real" where
  "trailPoint ball i =
     (let angle = (real i / 3) * pi * 2;
          offsetX = cos angle * 0.01;
          offsetY = sin angle * 0.01
      in (x ball + offsetX, y ball + offsetY))"

definition trailSplat :: "MagicBall \<Rightarrow> nat \<Rightarrow> FluidCall list" where
  "trailSplat ball i =
     (case trailPoint ball i of (px, py) \<Rightarrow>
        if px \<ge> 0 \<and> px \<le> 1 \<and> py \<ge> 0 \<and> py \<le> 1
        then [createSplat px py (vx ball * 20) (vy ball * 20) (effectColor ball)]
        else [])"

definition createFluidEffect :: "MagicBall \<Rightarrow> FluidCall list" where
  "createFluidEffect ball = concat (map (trailSplat ball) [0..<3])"

text \<open>
  \<open>throwMagicBall\<close>: \<open>rnd k\<close> is the value of the \<open>k\<close>-th call of \<open>Math.random()\<close> made
  by this invocation (the first one, \<open>hue\<close>, is not used by the source).
  A velocity \<open>{vx, vy}\<close> is a pair.
\<close>

definition thrownBall :: "Env \<Rightarrow> (nat \<Rightarrow> real) \<Rightarrow> 'a PageCoords_scheme \<Rightarrow> real \<times> real \<Rightarrow> MagicBall" where
  "thrownBall env rnd handCoords velocity =
     (let startX = normalizedX env handCoords;
          startY = normalizedY env handCoords;
          hue = rnd 0;
          c = \<lparr>r = 0.3 + rnd 1 * 0.7, g = 0.3 + rnd 2 * 0.7, b = 0.3 + rnd 3 * 0.7\<rparr>
      in newMagicBall startX startY (fst velocity) (snd velocity) c)"

definition throwMagicBall ::
  "Env \<Rightarrow> (nat \<Rightarrow> real) \<Rightarrow> MagicBall list \<Rightarrow> 'a PageCoords_scheme \<Rightarrow> real \<times> real \<Rightarrow> bool
     \<Rightarrow> MagicBall list" where
  "throwMagicBall env rnd balls handCoords velocity isLeftHand =
     shiftWhileLonger 10 (balls @ [thrownBall env rnd handCoords velocity])"

text \<open>
  \<open>updateMagicBalls\<close> walks the array from the last index down to 0. The first argument
  is \<open>i + 1\<close>; \<open>splice(i, 1)\<close> removes the element at index \<open>i\<close>.
\<close>

fun updateMagicBallsFrom ::
  "nat \<Rightarrow> MagicBall list \<Rightarrow> FluidCall list \<Rightarrow> MagicBall list \<times> FluidCall list" where
  "updateMagicBallsFrom 0 balls calls = (balls, calls)"
| "updateMagicBallsFrom (Suc i) balls calls =
     (case update (balls ! i) of (ball, stillAlive) \<Rightarrow>
        if stillAlive
        then updateMagicBallsFrom i (balls[i := ball]) (calls @ createFluidEffect ball)
        else updateMagicBallsFrom i (take i balls @ drop (Suc i) balls) calls)"

definition updateMagicBalls :: "MagicBall list \<Rightarrow> MagicBall list \<times> FluidCall list" where
  "updateMagicBalls balls = updateMagicBallsFrom (length balls) balls []"

text \<open>The engine seen from outside: projectiles are spawned and frames tick.\<close>

datatype EngineOp =
    Throw Env "nat \<Rightarrow> real" PageCoords "real \<times> real" bool
  | Tick

fun engineStep :: "MagicBall list \<Rightarrow> EngineOp \<Rightarrow> MagicBall list" where
  "engineStep balls (Throw env rnd handCoords velocity isLeftHand) =
     throwMagicBall env rnd balls handCoords velocity isLeftHand"
| "engineStep balls Tick = fst (updateMagicBalls balls)"

definition runEngine :: "MagicBall list \<Rightarrow> EngineOp list \<Rightarrow> MagicBall list" where
  "runEngine balls ops = foldl engineStep balls ops"

section \<open>Coordinates of a hand\<close>

text \<open>
  The landmark indices \<open>HAND_LABEL_INDEX\<close> come from a module that is not among the
  sources; the functions that use them take the table as an argument.
\<close>

record HandLabelIndex =
  WRIST :: nat
  INDEX_FINGER_MCP :: nat
  INDEX_FINGER_TIP :: nat
  PINKY_FINGER_MCP :: nat

text \<open>\<open>landmarks[i]\<close>: reading a JavaScript array past its end gives \<open>undefined\<close>.\<close>

definition elementAt :: "'a list \<Rightarrow> nat \<Rightarrow> 'a option" where
  "elementAt xs i = (if i < length xs then Some (xs ! i) else None)"

text \<open>
  Modelled from the spec: \<open>triangleCentroid\<close> (module \<open>utils/math-utils\<close>) is not among
  the sources. The specification describes it as the arithmetic mean of the three 3D
  points, and says that undefined input landmarks short-circuit to no coordinate.
\<close>

definition triangleCentroid ::
  "NormalizedLandmark option \<Rightarrow> NormalizedLandmark option \<Rightarrow> NormalizedLandmark option
     \<Rightarrow> NormalizedLandmark option" where
  "triangleCentroid pa pb pc =
     (case (pa, pb, pc) of
        (Some p1, Some p2, Some p3) \<Rightarrow>
          Some \<lparr>x = (x p1 + x p2 + x p3) / 3,
                y = (y p1 + y p2 + y p3) / 3,
                z = (z p1 + z p2 + z p3) / 3\<rparr>
      | _ \<Rightarrow> None)"

definition getHandCentroid ::
  "HandLabelIndex \<Rightarrow> NormalizedLandmark list option \<Rightarrow> NormalizedLandmark option" where
  "getHandCentroid hli landmarks =
     (case landmarks of
        None \<Rightarrow> None
      | Some ls \<Rightarrow>
          (let wristCoords = elementAt ls (WRIST hli);
               indexMCPCoords = elementAt ls (INDEX_FINGER_MCP hli);
               pinkyMCPCoords = elementAt ls (PINKY_FINGER_MCP hli)
           in triangleCentroid wristCoords indexMCPCoords pinkyMCPCoords))"

definition getTouch :: "real \<Rightarrow> real \<Rightarrow> int \<Rightarrow> Touch" where
  "getTouch px py ident =
     \<lparr>pageX = px, pageY = py, identifier = ident,
      screenX = px, screenY = py, clientX = px, clientY = py\<rparr>"

definition getPageCoords :: "Env \<Rightarrow> 'a Coords2D_scheme option \<Rightarrow> PageCoords option" where
  "getPageCoords env normalizedCoord =
     (case normalizedCoord of
        None \<Rightarrow> None
      | Some c \<Rightarrow>
          (let screenWidth = width (fluidCanvasElement env);
               screenHeight = height (fluidCanvasElement env)
           in Some \<lparr>pageX = (x c * screenWidth) / pixelRatio env,
                    pageY = (y c * screenHeight) / pixelRatio env\<rparr>))"

text \<open>
  Modelled from the spec: \<open>createTouchEvent\<close> (module \<open>utils/touch-utils\<close>) is not among
  the sources; the event it builds carries the type and the touch points it is given.

  \<open>getEvent\<close> reads the module variable \<open>previousTouches\<close> (\<open>None\<close> while it is
  undefined) and initialises it to the empty array when it is undefined.
\<close>

definition createTouchEvent :: "string \<Rightarrow> Touch list \<Rightarrow> TouchEvent" where
  "createTouchEvent ty ts = \<lparr>type = ty, touches = ts\<rparr>"

definition getEvent :: "Touch list option \<Rightarrow> Touch list \<Rightarrow> TouchEvent \<times> Touch list option" where
  "getEvent previousTouches ts =
     (let prev = (case previousTouches of None \<Rightarrow> [] | Some p \<Rightarrow> p) in
      if length prev \<noteq> 0 \<and> length prev \<ge> length ts
      then (createTouchEvent ''touchmove'' ts, Some prev)
      else (createTouchEvent ''touchstart'' ts, Some prev))"

section \<open>Finger ray\<close>

text \<open>
  A JavaScript division by zero does not raise: it yields an infinity or NaN, which the
  real numbers of this model do not have. In \<open>createFingerRay\<close> the divisions whose
  divisor can be zero are therefore made explicit: \<open>checkedDivide\<close> returns
  \<open>Inl DivisionByZero\<close> for a zero divisor, and the function returns the first such
  value instead of the calls it would have made. (The divisor of \<open>getPageCoords\<close> is
  \<open>pixelRatio\<close>, which is never zero.)
\<close>

datatype error = DivisionByZero

definition checkedDivide :: "real \<Rightarrow> real \<Rightarrow> error + real" where
  "checkedDivide a d = (if d = 0 then Inl DivisionByZero else Inr (a / d))"

definition andThen :: "error + 'a \<Rightarrow> ('a \<Rightarrow> error + 'b) \<Rightarrow> error + 'b" where
  "andThen m f = (case m of Inl e \<Rightarrow> Inl e | Inr v \<Rightarrow> f v)"

text \<open>\<open>a % m\<close> on numbers: the remainder has the sign of the dividend.\<close>

definition jsRemainder :: "real \<Rightarrow> real \<Rightarrow> real" where
  "jsRemainder a m =
     (let q = a / m in a - m * (if q \<ge> 0 then of_int \<lfloor>q\<rfloor> else of_int \<lceil>q\<rceil>))"

text \<open>The HSV to RGB conversion of the loop body, from the three random draws.\<close>

definition rayColor :: "real \<Rightarrow> real \<Rightarrow> real \<Rightarrow> Color" where
  "rayColor hue saturation val =
     (let c = val * saturation;
          x_color = c * (1 - \<bar>jsRemainder (hue * 6) 2 - 1\<bar>);
          m = val - c;
          rgb = (if hue < 1 / 6 then (c, x_color, 0)
                 else if hue < 2 / 6 then (x_color, c, 0)
                 else if hue < 3 / 6 then (0, c, x_color)
                 else if hue < 4 / 6 then (0, x_color, c)
                 else if hue < 5 / 6 then (x_color, 0, c)
                 else (c, 0, x_color))
      in case rgb of (cr, cg, cb) \<Rightarrow> \<lparr>r = cr + m, g = cg + m, b = cb + m\<rparr>)"

text \<open>
  The loop \<open>for (let i = 1; i <= numRayPoints; i++)\<close> with its \<open>break\<close>. \<open>rnd k\<close> is the
  \<open>k\<close>-th value of \<open>Math.random()\<close> in this invocation; iteration \<open>i\<close> draws three.
\<close>

function rayLoop ::
  "Env \<Rightarrow> real \<Rightarrow> (nat \<Rightarrow> real) \<Rightarrow> real \<Rightarrow> real \<Rightarrow> real \<Rightarrow> real \<Rightarrow> nat \<Rightarrow> error + FluidCall list" where
  "rayLoop env time rnd startX startY normalizedDirX normalizedDirY i =
     (let canvas = fluidCanvasElement env;
          rayLength = 0.2;
          numRayPoints = 2
      in
      if i \<le> numRayPoints then
        (let t = real i / real numRayPoints;
             distance = rayLength * t;
             jiggleAmount = sin (time + real i) * 0.005;
             perpX = - normalizedDirY;
             perpY = normalizedDirX
         in
         andThen (checkedDivide (normalizedDirX * distance * pixelRatio env) (width canvas)) (\<lambda>stepX.
         andThen (checkedDivide (normalizedDirY * distance * pixelRatio env) (height canvas)) (\<lambda>stepY.
           (let px = startX + stepX + (perpX * jiggleAmount);
                py = startY - stepY + (perpY * jiggleAmount)
            in
            if px < 0 \<or> px > 1 \<or> py < 0 \<or> py > 1 then Inr []
            else
              (let forceMultiplier = 20;
                   pdx = normalizedDirX * forceMultiplier;
                   pdy = - normalizedDirY * forceMultiplier;
                   hue = rnd (3 * (i - 1));
                   saturation = 0.6 + rnd (3 * (i - 1) + 1) * 0.4;
                   val = 0.3 + rnd (3 * (i - 1) + 2) * 0.2
               in
               andThen (rayLoop env time rnd startX startY normalizedDirX normalizedDirY (i + 1))
                 (\<lambda>rest. Inr (createSplat px py pdx pdy (rayColor hue saturation val) # rest)))))))
      else Inr [])"
  by pat_completeness auto
termination
  by (relation "measure (\<lambda>(env, time, rnd, sx, sy, ndx, ndy, i). 3 - i)") auto

declare rayLoop.simps [simp del]

definition createFingerRay ::
  "Env \<Rightarrow> HandLabelIndex \<Rightarrow> real \<Rightarrow> (nat \<Rightarrow> real) \<Rightarrow> NormalizedLandmark list \<Rightarrow> PageCoords
     \<Rightarrow> bool \<Rightarrow> error + FluidCall list" where
  "createFingerRay env hli now rnd landmarks handCoords isLeftHand =
     (let canvas = fluidCanvasElement env;
          fingerTip = elementAt landmarks (INDEX_FINGER_TIP hli);
          fingerMCP = elementAt landmarks (INDEX_FINGER_MCP hli)
      in
      if fingerTip = None \<or> fingerMCP = None then Inr []
      else
        (case (getPageCoords env fingerTip, getPageCoords env fingerMCP) of
           (Some tipPageCoords, Some mcpPageCoords) \<Rightarrow>
             (let directionX = pageX tipPageCoords - pageX mcpPageCoords;
                  directionY = pageY tipPageCoords - pageY mcpPageCoords;
                  len = sqrt (directionX * directionX + directionY * directionY)
              in
              if len = 0 then Inr []
              else
                andThen (checkedDivide directionX len) (\<lambda>normalizedDirX.
                andThen (checkedDivide directionY len) (\<lambda>normalizedDirY.
                andThen (checkedDivide (pageX tipPageCoords * pixelRatio env) (width canvas)) (\<lambda>qx.
                andThen (checkedDivide (pageY tipPageCoords * pixelRatio env) (height canvas)) (\<lambda>qy.
                  (let startX = qx;
                       startY = 1 - qy;
                       time = now * 0.001
                   in rayLoop env time rnd startX startY normalizedDirX normalizedDirY 1))))))
         | _ \<Rightarrow> Inr []))"

section \<open>Effect dispatcher\<close>

definition GESTURE_MATCH :: string where "GESTURE_MATCH = ''Open_Palm''"
definition FIST_GESTURE :: string where "FIST_GESTURE = ''Closed_Fist''"
definition POINTING_GESTURE :: string where "POINTING_GESTURE = ''Pointing_Up''"
definition THUMB_UP_GESTURE :: string where "THUMB_UP_GESTURE = ''Thumb_Up''"

definition LEFT_HAND_EVENT_ID :: int where "LEFT_HAND_EVENT_ID = - 10"
definition RIGHT_HAND_EVENT_ID :: int where "RIGHT_HAND_EVENT_ID = - 11"

text \<open>
  \<open>getHandData\<close> belongs to a module that is not among the sources; \<open>processResults\<close>
  only reads \<open>left\<close> and \<open>right\<close> of its result, and of each hand
  \<open>gesture?.categoryName\<close> and \<open>landmarks\<close>, every one of them optional. The model takes
  that result as its input.
\<close>

record HandData =
  gesture :: "string option"
  landmarks :: "NormalizedLandmark list option"

record CurrentHandData =
  left :: "HandData option"
  right :: "HandData option"

text \<open>The module variables that \<open>processResults\<close> reads and writes.\<close>

record State =
  leftHandHistory :: "HandVelocity list"
  rightHandHistory :: "HandVelocity list"
  magicBalls :: "MagicBall list"
  previousTouches :: "Touch list option"

definition initialState :: State where
  "initialState =
     \<lparr>leftHandHistory = [], rightHandHistory = [], magicBalls = [], previousTouches = None\<rparr>"

text \<open>
  What one frame reads from outside: the canvas and pixel ratio, the landmark table, the
  hand data, and the clock and random values of the two possible throws.
\<close>

record Frame =
  environment :: Env
  handLabelIndex :: HandLabelIndex
  currentHandData :: CurrentHandData
  nowLeft :: real
  nowRight :: real
  rndLeft :: "nat \<Rightarrow> real"
  rndRight :: "nat \<Rightarrow> real"

text \<open>
  What \<open>processResults\<close> does to the outside, in order: the effect generators it invokes
  with their arguments, and the calls it makes on the fluid simulation itself (the touch
  events, and through \<open>updateMagicBalls\<close> the trail impulses).
\<close>

datatype Invocation =
    createWigglyBall PageCoords bool
  | createBothPointingRaysToCenter PageCoords PageCoords
  | createFingerRayCall "NormalizedLandmark list" PageCoords bool
  | createBothHandsGlowEffect PageCoords PageCoords
  | fluidSimulation FluidCall

text \<open>\<open>hand?.gesture?.categoryName === name\<close>\<close>

definition hasGesture :: "HandData option \<Rightarrow> string \<Rightarrow> bool" where
  "hasGesture hand name = (case hand of None \<Rightarrow> False | Some h \<Rightarrow> gesture h = Some name)"

text \<open>\<open>hand?.landmarks\<close>\<close>

definition landmarksOf :: "HandData option \<Rightarrow> NormalizedLandmark list option" where
  "landmarksOf hand = (case hand of None \<Rightarrow> None | Some h \<Rightarrow> landmarks h)"

text \<open>
  The block the source repeats for each gesture and each hand: when the hand shows the
  gesture, the page coordinates of its centroid; otherwise the variable stays undefined.
\<close>

definition gestureCoords :: "Frame \<Rightarrow> HandData option \<Rightarrow> string \<Rightarrow> PageCoords option" where
  "gestureCoords fr hand name =
     (if hasGesture hand name
      then (let handMiddleCoords = getHandCentroid (handLabelIndex fr) (landmarksOf hand)
            in getPageCoords (environment fr) handMiddleCoords)
      else None)"

text \<open>
  The test \<open>coords?.pageX && coords?.pageY\<close> of the source holds when the coordinates
  are defined and neither of them is zero (a number is falsy when it is zero). It guards
  the touch of an open palm and the invocation of every generator.
\<close>

definition palmTouch :: "PageCoords option \<Rightarrow> int \<Rightarrow> Touch list" where
  "palmTouch coords ident =
     (case coords of
        None \<Rightarrow> []
      | Some c \<Rightarrow> if pageX c \<noteq> 0 \<and> pageY c \<noteq> 0 then [getTouch (pageX c) (pageY c) ident] else [])"

text \<open>
  The thumb-up block of one hand: record the sample, look for a throw, and on a throw
  spawn a projectile and clear the history.
\<close>

definition thumbUpBlock ::
  "Env \<Rightarrow> real \<Rightarrow> (nat \<Rightarrow> real) \<Rightarrow> bool \<Rightarrow> PageCoords option \<Rightarrow> HandVelocity list \<Rightarrow> MagicBall list
     \<Rightarrow> HandVelocity list \<times> MagicBall list" where
  "thumbUpBlock e now rnd isLeftHand coords history balls =
     (case coords of
        None \<Rightarrow> (history, balls)
      | Some c \<Rightarrow>
          (let history1 = updateHandVelocityHistory e now history c in
           case detectThrowingMotion history1 of
             None \<Rightarrow> (history1, balls)
           | Some throwVelocity \<Rightarrow> ([], throwMagicBall e rnd balls c throwVelocity isLeftHand)))"

definition fistCalls :: "PageCoords option \<Rightarrow> bool \<Rightarrow> Invocation list" where
  "fistCalls coords isLeftHand =
     (case coords of
        None \<Rightarrow> []
      | Some c \<Rightarrow> if pageX c \<noteq> 0 \<and> pageY c \<noteq> 0 then [createWigglyBall c isLeftHand] else [])"

definition singleRayCalls ::
  "PageCoords option \<Rightarrow> NormalizedLandmark list option \<Rightarrow> bool \<Rightarrow> Invocation list" where
  "singleRayCalls coords lms isLeftHand =
     (case (coords, lms) of
        (Some c, Some ls) \<Rightarrow>
          if pageX c \<noteq> 0 \<and> pageY c \<noteq> 0 then [createFingerRayCall ls c isLeftHand] else []
      | _ \<Rightarrow> [])"

definition pointingCalls ::
  "PageCoords option \<Rightarrow> PageCoords option \<Rightarrow> CurrentHandData \<Rightarrow> Invocation list" where
  "pointingCalls leftPointingCoords rightPointingCoords hands =
     (case (leftPointingCoords, rightPointingCoords) of
        (Some lc, Some rc) \<Rightarrow>
          if pageX lc \<noteq> 0 \<and> pageY lc \<noteq> 0 \<and> pageX rc \<noteq> 0 \<and> pageY rc \<noteq> 0
          then [createBothPointingRaysToCenter lc rc]
          else singleRayCalls leftPointingCoords (landmarksOf (left hands)) True
             @ singleRayCalls rightPointingCoords (landmarksOf (right hands)) False
      | _ \<Rightarrow>
          singleRayCalls leftPointingCoords (landmarksOf (left hands)) True
        @ singleRayCalls rightPointingCoords (landmarksOf (right hands)) False)"

definition touchCalls :: "Touch list option \<Rightarrow> Touch list \<Rightarrow> Invocation list" where
  "touchCalls prev ts =
     (let event = fst (getEvent prev ts) in
      if type event = ''touchstart'' then [fluidSimulation (sendTouchStart event)]
      else if type event = ''touchmove'' then [fluidSimulation (sendTouchMove event)]
      else if type event = ''touchend'' then [fluidSimulation (sendTouchEnd event)]
      else [])"

definition palmCalls ::
  "PageCoords option \<Rightarrow> PageCoords option \<Rightarrow> Touch list option \<Rightarrow> Touch list \<Rightarrow> Invocation list" where
  "palmCalls leftHandCoords rightHandCoords prev ts =
     (case (leftHandCoords, rightHandCoords) of
        (Some lc, Some rc) \<Rightarrow>
          if pageX lc \<noteq> 0 \<and> pageY lc \<noteq> 0 \<and> pageX rc \<noteq> 0 \<and> pageY rc \<noteq> 0
          then [createBothHandsGlowEffect lc rc]
          else if length ts > 0 then touchCalls prev ts else []
      | _ \<Rightarrow> if length ts > 0 then touchCalls prev ts else [])"

definition processResults :: "State \<Rightarrow> Frame \<Rightarrow> State \<times> Invocation list" where
  "processResults st fr =
     (let hands = currentHandData fr;
          leftHandCoords = gestureCoords fr (left hands) GESTURE_MATCH;
          rightHandCoords = gestureCoords fr (right hands) GESTURE_MATCH;
          ts = palmTouch leftHandCoords LEFT_HAND_EVENT_ID
             @ palmTouch rightHandCoords RIGHT_HAND_EVENT_ID;
          leftFistCoords = gestureCoords fr (left hands) FIST_GESTURE;
          rightFistCoords = gestureCoords fr (right hands) FIST_GESTURE;
          leftPointingCoords = gestureCoords fr (left hands) POINTING_GESTURE;
          rightPointingCoords = gestureCoords fr (right hands) POINTING_GESTURE;
          leftThumbUpCoords = gestureCoords fr (left hands) THUMB_UP_GESTURE;
          rightThumbUpCoords = gestureCoords fr (right hands) THUMB_UP_GESTURE;
          afterLeft = thumbUpBlock (environment fr) (nowLeft fr) (rndLeft fr) True leftThumbUpCoords
                        (leftHandHistory st) (magicBalls st);
          afterRight = thumbUpBlock (environment fr) (nowRight fr) (rndRight fr) False rightThumbUpCoords
                        (rightHandHistory st) (snd afterLeft);
          ticked = updateMagicBalls (snd afterRight)
      in
      (\<lparr>leftHandHistory = fst afterLeft,
        rightHandHistory = fst afterRight,
        magicBalls = fst ticked,
        previousTouches = Some ts\<rparr>,
       fistCalls leftFistCoords True
       @ fistCalls rightFistCoords False
       @ pointingCalls leftPointingCoords rightPointingCoords hands
       @ palmCalls leftHandCoords rightHandCoords (previousTouches st) ts
       @ map fluidSimulation (snd ticked)))"

text \<open>A run of frames from a state: the state after each frame feeds the next.\<close>

fun processFrames :: "State \<Rightarrow> Frame list \<Rightarrow> State \<times> Invocation list" where
  "processFrames st [] = (st, [])"
| "processFrames st (fr # frs) =
     (case processResults st fr of (st1, calls1) \<Rightarrow>
        case processFrames st1 frs of (st2, calls2) \<Rightarrow> (st2, calls1 @ calls2))"

section \<open>Views used in the statements\<close>

text \<open>The projectiles that survive a tick, each after its update, in their order.\<close>

definition survivors :: "MagicBall list \<Rightarrow> MagicBall list" where
  "survivors bs = map (\<lambda>ball. fst (update ball)) (filter (\<lambda>ball. snd (update ball)) bs)"

text \<open>A point of the unit square, and the impulse a projectile sends to a point.\<close>

definition inUnitSquare :: "real \<times> real \<Rightarrow> bool" where
  "inUnitSquare p = (0 \<le> fst p \<and> fst p \<le> 1 \<and> 0 \<le> snd p \<and> snd p \<le> 1)"

definition trailImpulse :: "MagicBall \<Rightarrow> real \<times> real \<Rightarrow> FluidCall" where
  "trailImpulse ball p =
     createSplat (fst p) (snd p) (20 * vx ball) (20 * vy ball)
       \<lparr>r = r (color ball) * (real_of_int (life ball) / real_of_int (maxLife ball)) * 0.8,
        g = g (color ball) * (real_of_int (life ball) / real_of_int (maxLife ball)) * 0.8,
        b = b (color ball) * (real_of_int (life ball) / real_of_int (maxLife ball)) * 0.8\<rparr>"

text \<open>The invocations of the two pointing generators.\<close>

fun isPointingCall :: "Invocation \<Rightarrow> bool" where
  "isPointingCall (createBothPointingRaysToCenter lc rc) = True"
| "isPointingCall (createFingerRayCall ls c isLeftHand) = True"
| "isPointingCall other = False"

text \<open>The value of \<open>previousTouches\<close> as \<open>getEvent\<close> uses it, and the touches of a frame.\<close>

definition previousList :: "Touch list option \<Rightarrow> Touch list" where
  "previousList prev = (case prev of None \<Rightarrow> [] | Some p \<Rightarrow> p)"

definition frameTouches :: "Frame \<Rightarrow> Touch list" where
  "frameTouches fr =
     palmTouch (gestureCoords fr (left (currentHandData fr)) GESTURE_MATCH) LEFT_HAND_EVENT_ID
     @ palmTouch (gestureCoords fr (right (currentHandData fr)) GESTURE_MATCH) RIGHT_HAND_EVENT_ID"

section \<open>Example inputs\<close>

text \<open>A canvas of 1024 by 512 device pixels at pixel ratio 2: a page of 512 by 256.\<close>

definition exampleEnv :: Env where
  "exampleEnv = \<lparr>fluidCanvasElement = \<lparr>width = 1024, height = 512\<rparr>, devicePixelRatio = 2\<rparr>"

definition sampleAt :: "real \<Rightarrow> real \<Rightarrow> real \<Rightarrow> HandVelocity" where
  "sampleAt px py t = \<lparr>x = px, y = py, timestamp = t\<rparr>"

definition fiveSamples :: "HandVelocity list" where
  "fiveSamples =
     [sampleAt 0.1 0.5 0, sampleAt 0.2 0.5 16, sampleAt 0.3 0.5 32,
      sampleAt 0.4 0.5 48, sampleAt 0.5 0.5 64]"

definition examplePoint :: PageCoords where
  "examplePoint = \<lparr>pageX = 256, pageY = 64\<rparr>"

definition exampleColor :: Color where
  "exampleColor = \<lparr>r = 1, g = 0.5, b = 0.25\<rparr>"

definition exampleBall :: "nat \<Rightarrow> MagicBall" where
  "exampleBall k = newMagicBall (real k / 16) 0.5 0 0 exampleColor"

definition tenBalls :: "MagicBall list" where
  "tenBalls =
     [exampleBall 0, exampleBall 1, exampleBall 2, exampleBall 3, exampleBall 4,
      exampleBall 5, exampleBall 6, exampleBall 7, exampleBall 8, exampleBall 9]"

definition exampleRnd :: "nat \<Rightarrow> real" where
  "exampleRnd k = 0.5"

definition fastHistory :: "HandVelocity list" where
  "fastHistory = [sampleAt 0.1 0.5 0, sampleAt 0.4 0.5 20, sampleAt 0.7 0.5 40]"

definition shortHistory :: "HandVelocity list" where
  "shortHistory = [sampleAt 0.1 0.5 0, sampleAt 0.4 0.5 20]"

definition slowHistory :: "HandVelocity list" where
  "slowHistory =
     [sampleAt 0.2 0.5 0, sampleAt 0.3 0.5 20, sampleAt 0.45 0.5 50, sampleAt 0.6 0.5 80]"

definition staleHistory :: "HandVelocity list" where
  "staleHistory = [sampleAt 0.1 0.5 0, sampleAt 0.9 0.5 500, sampleAt 0.6 0.5 520]"

definition restingBall :: MagicBall where
  "restingBall = newMagicBall 0.5 0.5 0 0 exampleColor"

definition lastTickBall :: MagicBall where
  "lastTickBall = restingBall\<lparr>life := 1\<rparr>"

definition fadingBall :: MagicBall where
  "fadingBall = restingBall\<lparr>life := 60\<rparr>"

definition edgeBall :: MagicBall where
  "edgeBall = (newMagicBall 0.995 0.5 0.25 0 exampleColor)\<lparr>life := 60\<rparr>"

definition interiorPoint :: PageCoords where
  "interiorPoint = \<lparr>pageX = 64, pageY = 64\<rparr>"

text \<open>The landmark indices of the recognizer's hand model, and hands of 21 landmarks.\<close>

definition exampleIndex :: HandLabelIndex where
  "exampleIndex =
     \<lparr>WRIST = 0, INDEX_FINGER_MCP = 5, INDEX_FINGER_TIP = 8, PINKY_FINGER_MCP = 17\<rparr>"

definition pointAt :: "real \<Rightarrow> real \<Rightarrow> NormalizedLandmark" where
  "pointAt px py = \<lparr>x = px, y = py, z = 0\<rparr>"

definition collapsedHand :: "NormalizedLandmark list" where
  "collapsedHand = replicate 21 (pointAt 0.25 0.5)"

definition degenerateEnv :: Env where
  "degenerateEnv = \<lparr>fluidCanvasElement = \<lparr>width = 0, height = 0\<rparr>, devicePixelRatio = 0\<rparr>"

definition fingerUpHand :: "NormalizedLandmark list" where
  "fingerUpHand = (replicate 21 (pointAt 0.5 0.75))[8 := pointAt 0.5 0.25]"

definition noWidthEnv :: Env where
  "noWidthEnv = \<lparr>fluidCanvasElement = \<lparr>width = 0, height = 512\<rparr>, devicePixelRatio = 2\<rparr>"

text \<open>Frames on the example canvas: a hand shows a gesture with all landmarks at one point.\<close>

definition handShowing :: "string \<Rightarrow> real \<Rightarrow> HandData" where
  "handShowing name px =
     \<lparr>gesture = Some name, landmarks = Some (replicate 21 (pointAt px 0.5))\<rparr>"

definition frameWith :: "HandData option \<Rightarrow> HandData option \<Rightarrow> Frame" where
  "frameWith l rt =
     \<lparr>environment = exampleEnv, handLabelIndex = exampleIndex,
      currentHandData = \<lparr>left = l, right = rt\<rparr>,
      nowLeft = 0, nowRight = 0, rndLeft = exampleRnd, rndRight = exampleRnd\<rparr>"

definition bothPointingFrame :: Frame where
  "bothPointingFrame =
     frameWith (Some (handShowing ''Pointing_Up'' 0.25)) (Some (handShowing ''Pointing_Up'' 0.75))"

definition leftPointingFrame :: Frame where
  "leftPointingFrame =
     frameWith (Some (handShowing ''Pointing_Up'' 0.25)) (Some (handShowing ''Closed_Fist'' 0.75))"

definition rightPointingFrame :: Frame where
  "rightPointingFrame = frameWith None (Some (handShowing ''Pointing_Up'' 0.75))"

definition leftPalmFrame :: Frame where
  "leftPalmFrame = frameWith (Some (handShowing ''Open_Palm'' 0.25)) None"

definition leftPalmTouch :: Touch where
  "leftPalmTouch = getTouch 128 128 (- 10)"

definition edgePointingFrame :: Frame where
  "edgePointingFrame =
     frameWith (Some (handShowing ''Pointing_Up'' 0)) (Some (handShowing ''Pointing_Up'' 0.75))"

definition edgeLeftOnlyFrame :: Frame where
  "edgeLeftOnlyFrame = frameWith (Some (handShowing ''Pointing_Up'' 0)) None"

section \<open>Bounded history\<close>

lemma shiftWhileLonger_drop: "shiftWhileLonger n xs = drop (length xs - n) xs"
proof (induction n xs rule: shiftWhileLonger.induct)
  case (1 n xs)
  show ?case
  proof (cases "length xs > n")
    case True
    then obtain a as where xs: "xs = a # as" by (cases xs) auto
    from True xs have "length xs - n = Suc (length as - n)" by simp
    moreover from True have "shiftWhileLonger n xs = shiftWhileLonger n (tl xs)"
      by (subst shiftWhileLonger.simps) simp
    ultimately show ?thesis using 1 True xs by simp
  next
    case False
    then show ?thesis by (subst shiftWhileLonger.simps) simp
  qed
qed

lemma length_shiftWhileLonger: "length (shiftWhileLonger n xs) \<le> n"
  by (simp add: shiftWhileLonger_drop)

lemma length_recordCalls:
  "calls \<noteq> [] \<Longrightarrow> length (recordCalls env history calls) \<le> VELOCITY_HISTORY_SIZE"
proof (induction calls arbitrary: history)
  case Nil
  then show ?case by simp
next
  case (Cons c calls)
  obtain now coords where c: "c = (now, coords)" by (cases c)
  show ?case
  proof (cases calls)
    case Nil
    with c show ?thesis
      by (simp add: updateHandVelocityHistory_def length_shiftWhileLonger)
  next
    case (Cons d ds)
    with c Cons.IH show ?thesis by simp
  qed
qed

text \<open>
  C1. Whatever the history was, after a call of \<open>updateHandVelocityHistory\<close> it holds at
  most 5 samples: it is the new sample appended and then as many of the oldest samples
  dropped from the front as exceed the bound, so the new sample is always kept. A full
  history loses exactly its first sample. Hence the bound holds after each call of any
  sequence of calls.
\<close>

theorem updateHandVelocityHistory_bounded_fifo:
  "length (updateHandVelocityHistory env now history coords) \<le> VELOCITY_HISTORY_SIZE
   \<and> updateHandVelocityHistory env now history coords =
       drop (Suc (length history) - VELOCITY_HISTORY_SIZE)
         (history @ [\<lparr>x = normalizedX env coords, y = normalizedY env coords, timestamp = now\<rparr>])
   \<and> (length history = VELOCITY_HISTORY_SIZE \<longrightarrow>
        updateHandVelocityHistory env now history coords =
          tl history @ [\<lparr>x = normalizedX env coords, y = normalizedY env coords, timestamp = now\<rparr>])
   \<and> (\<forall>calls. calls \<noteq> [] \<longrightarrow>
        length (recordCalls env history calls) \<le> VELOCITY_HISTORY_SIZE)"
  apply (simp add: updateHandVelocityHistory_def shiftWhileLonger_drop length_recordCalls)
  apply (cases history)
   apply (auto simp: VELOCITY_HISTORY_SIZE_def)
  done

theorem updateHandVelocityHistory_bounded_fifo_witness:
  "length fiveSamples = VELOCITY_HISTORY_SIZE
   \<and> updateHandVelocityHistory exampleEnv 80 fiveSamples examplePoint =
       [sampleAt 0.2 0.5 16, sampleAt 0.3 0.5 32, sampleAt 0.4 0.5 48, sampleAt 0.5 0.5 64,
        sampleAt 0.5 0.75 80]
   \<and> length (recordCalls exampleEnv fiveSamples [(80, examplePoint), (96, examplePoint)]) \<le> 5"
proof -
  note fifo = updateHandVelocityHistory_bounded_fifo [of exampleEnv 80 fiveSamples examplePoint]
  have full: "length fiveSamples = VELOCITY_HISTORY_SIZE"
    by (simp add: fiveSamples_def VELOCITY_HISTORY_SIZE_def)
  from fifo full
  have "updateHandVelocityHistory exampleEnv 80 fiveSamples examplePoint =
          tl fiveSamples @ [\<lparr>x = normalizedX exampleEnv examplePoint,
                              y = normalizedY exampleEnv examplePoint, timestamp = 80\<rparr>]"
    by blast
  then have evicted: "updateHandVelocityHistory exampleEnv 80 fiveSamples examplePoint =
       [sampleAt 0.2 0.5 16, sampleAt 0.3 0.5 32, sampleAt 0.4 0.5 48, sampleAt 0.5 0.5 64,
        sampleAt 0.5 0.75 80]"
    by (simp add: fiveSamples_def sampleAt_def normalizedX_def normalizedY_def pixelRatio_def
        exampleEnv_def examplePoint_def)
  from fifo
  have "[(80, examplePoint), (96, examplePoint)] \<noteq> [] \<longrightarrow>
        length (recordCalls exampleEnv fiveSamples [(80, examplePoint), (96, examplePoint)])
          \<le> VELOCITY_HISTORY_SIZE"
    by blast
  then have "length (recordCalls exampleEnv fiveSamples [(80, examplePoint), (96, examplePoint)]) \<le> 5"
    by (simp add: VELOCITY_HISTORY_SIZE_def)
  with full evicted show ?thesis by blast
qed

section \<open>Bounded projectile collection\<close>

lemma survivors_append: "survivors (as @ bs) = survivors as @ survivors bs"
  by (simp add: survivors_def)

lemma length_survivors: "length (survivors bs) \<le> length bs"
  by (simp add: survivors_def)

text \<open>
  The backward loop with \<open>splice\<close> computes the survivors: indices below \<open>i\<close> are not
  touched by a removal at \<open>i\<close>. The trail impulses come from the last projectile to the
  first.
\<close>

lemma updateMagicBallsFrom_eq:
  "n \<le> length balls \<Longrightarrow>
   updateMagicBallsFrom n balls calls =
     (survivors (take n balls) @ drop n balls,
      calls @ concat (map createFluidEffect (rev (survivors (take n balls)))))"
proof (induction n arbitrary: balls calls)
  case 0
  then show ?case by (simp add: survivors_def)
next
  case (Suc n)
  obtain ball alive where u: "update (balls ! n) = (ball, alive)" by (cases "update (balls ! n)")
  from Suc.prems have n: "n < length balls" by simp
  have tk: "take (Suc n) balls = take n balls @ [balls ! n]"
    using n by (simp add: take_Suc_conv_app_nth)
  show ?case
  proof (cases alive)
    case True
    have "n \<le> length (balls[n := ball])" using n by simp
    from Suc.IH [OF this, of "calls @ createFluidEffect ball"] u True n tk
    show ?thesis
      by (simp add: survivors_append survivors_def drop_update_swap
                    Cons_nth_drop_Suc [symmetric] upd_conv_take_nth_drop)
  next
    case False
    have "n \<le> length (take n balls @ drop (Suc n) balls)" using n by simp
    from Suc.IH [OF this, of calls] u False n tk
    show ?thesis
      by (simp add: survivors_append survivors_def min_def)
  qed
qed

lemma updateMagicBalls_eq:
  "updateMagicBalls balls =
     (survivors balls, concat (map createFluidEffect (rev (survivors balls))))"
  by (simp add: updateMagicBalls_def updateMagicBallsFrom_eq)

lemma length_throwMagicBall:
  "length (throwMagicBall env rnd balls handCoords velocity isLeftHand) \<le> 10"
  by (simp add: throwMagicBall_def length_shiftWhileLonger)

lemma length_engineStep: "length balls \<le> 10 \<Longrightarrow> length (engineStep balls op) \<le> 10"
proof (cases op)
  case (Throw env rnd handCoords velocity isLeftHand)
  then show ?thesis by (simp add: length_throwMagicBall)
next
  case Tick
  assume "length balls \<le> 10"
  with length_survivors [of balls] Tick show ?thesis
    by (simp add: updateMagicBalls_eq)
qed

lemma length_runEngine: "length balls \<le> 10 \<Longrightarrow> length (runEngine balls ops) \<le> 10"
  unfolding runEngine_def
  by (induction ops arbitrary: balls) (simp_all add: length_engineStep)

text \<open>
  C2. After \<open>throwMagicBall\<close> the collection holds at most 10 projectiles: it is the new
  projectile appended and then the oldest ones dropped from the front, so the new
  projectile is always the last entry, and a collection of 10 loses exactly its first
  (oldest) entry. Starting from the empty collection, no sequence of spawns and ticks
  ever holds more than 10.
\<close>

theorem throwMagicBall_bounded_fifo:
  "length (throwMagicBall env rnd balls handCoords velocity isLeftHand) \<le> 10
   \<and> throwMagicBall env rnd balls handCoords velocity isLeftHand =
       drop (Suc (length balls) - 10) (balls @ [thrownBall env rnd handCoords velocity])
   \<and> last (throwMagicBall env rnd balls handCoords velocity isLeftHand) =
       thrownBall env rnd handCoords velocity
   \<and> (length balls = 10 \<longrightarrow>
        throwMagicBall env rnd balls handCoords velocity isLeftHand =
          tl balls @ [thrownBall env rnd handCoords velocity])
   \<and> (\<forall>ops. length (runEngine [] ops) \<le> 10)"
  apply (simp add: throwMagicBall_def shiftWhileLonger_drop length_runEngine)
  apply (cases balls)
   apply auto
  done

theorem throwMagicBall_bounded_fifo_witness:
  "length tenBalls = 10
   \<and> throwMagicBall exampleEnv exampleRnd tenBalls examplePoint (15, 0) True =
       [exampleBall 1, exampleBall 2, exampleBall 3, exampleBall 4, exampleBall 5,
        exampleBall 6, exampleBall 7, exampleBall 8, exampleBall 9,
        thrownBall exampleEnv exampleRnd examplePoint (15, 0)]
   \<and> thrownBall exampleEnv exampleRnd examplePoint (15, 0) =
       newMagicBall 0.5 0.75 15 0 \<lparr>r = 0.65, g = 0.65, b = 0.65\<rparr>"
  using throwMagicBall_bounded_fifo [of exampleEnv exampleRnd tenBalls examplePoint "(15, 0)" True]
  by (simp add: tenBalls_def thrownBall_def normalizedX_def normalizedY_def pixelRatio_def
      exampleEnv_def examplePoint_def exampleRnd_def)

section \<open>Throw detection\<close>

lemma drop_pairs:
  assumes "1 \<le> i" "i < length h"
  shows "drop (i - 1) (zip h (tl h)) = (h ! (i - 1), h ! i) # drop i (zip h (tl h))"
proof -
  have len: "i - 1 < length (zip h (tl h))" using assms by simp
  have "(zip h (tl h)) ! (i - 1) = (h ! (i - 1), h ! i)"
    using assms len by (simp add: nth_tl)
  with Cons_nth_drop_Suc [OF len] assms show ?thesis by simp
qed

text \<open>
  The loop from index \<open>i\<close> adds to its accumulators the velocities of the valid pairs
  from the pair \<open>(history[i-1], history[i])\<close> on, and counts them.
\<close>

lemma velocityLoop_eq:
  "1 \<le> i \<Longrightarrow>
   velocityLoop h i a c n =
     (let ps = filter (\<lambda>pq. 0 < pairDt pq \<and> pairDt pq < 0.1) (drop (i - 1) (zip h (tl h))) in
      (a + sum_list (map (\<lambda>pq. fst (pairVelocity pq)) ps),
       c + sum_list (map (\<lambda>pq. snd (pairVelocity pq)) ps),
       n + length ps))"
proof (induction h i a c n rule: velocityLoop.induct)
  case (1 history i avgVx avgVy validSamples)
  show ?case
  proof (cases "i < length history")
    case False
    then have "drop (i - 1) (zip history (tl history)) = []" by simp
    with False show ?thesis by (subst velocityLoop.simps) simp
  next
    case True
    note dp = drop_pairs [OF "1.prems" True]
    let ?dt = "(timestamp (history ! i) - timestamp (history ! (i - 1))) / 1000"
    show ?thesis
    proof (cases "?dt > 0 \<and> ?dt < 0.1")
      case valid: True
      from "1.IH"(1) [OF True refl valid refl refl] "1.prems"
      show ?thesis
        using True valid dp
        by (subst velocityLoop.simps) (simp add: Let_def pairVelocity_def pairDt_def)
    next
      case invalid: False
      from "1.IH"(2) [OF True refl invalid] "1.prems"
      show ?thesis
        using True invalid dp
        by (subst velocityLoop.simps) (auto simp add: Let_def pairDt_def)
    qed
  qed
qed

lemma sqrt_threshold: "(sqrt a > 8) = (a > 64)"
proof -
  have "sqrt 64 = 8" using real_sqrt_abs [of 8] by simp
  with real_sqrt_less_iff [of 64 a] show ?thesis by simp
qed

lemma detectThrowingMotion_eq:
  "detectThrowingMotion history =
     (if 3 \<le> length history \<and> validPairs history \<noteq> []
         \<and> magnitude (averageVelocity history) > THROW_VELOCITY_THRESHOLD
      then Some (averageVelocity history) else None)"
  by (auto simp add: detectThrowingMotion_def velocityLoop_eq validPairs_def averageVelocity_def
      magnitude_def Let_def comp_def)

text \<open>
  C3. \<open>detectThrowingMotion\<close> returns the average of the velocities of the valid
  consecutive pairs (time delta strictly between 0 and 0.1 seconds) exactly when the
  history has at least 3 samples, there is a valid pair, and the magnitude of that
  average exceeds 8; in every other case it returns none. In particular it returns none
  for fewer than 3 samples, without a valid pair, and for a magnitude of at most 8.
\<close>

theorem detectThrowingMotion_average:
  "detectThrowingMotion history =
     (if 3 \<le> length history \<and> validPairs history \<noteq> []
         \<and> magnitude (averageVelocity history) > THROW_VELOCITY_THRESHOLD
      then Some (averageVelocity history) else None)
   \<and> (length history < 3 \<longrightarrow> detectThrowingMotion history = None)
   \<and> (validPairs history = [] \<longrightarrow> detectThrowingMotion history = None)
   \<and> (magnitude (averageVelocity history) \<le> THROW_VELOCITY_THRESHOLD \<longrightarrow>
        detectThrowingMotion history = None)"
  by (simp add: detectThrowingMotion_eq)

theorem detectThrowingMotion_average_witness:
  "detectThrowingMotion fastHistory = Some (15, 0)
   \<and> length shortHistory < 3 \<and> detectThrowingMotion shortHistory = None
   \<and> magnitude (averageVelocity slowHistory) \<le> THROW_VELOCITY_THRESHOLD
   \<and> detectThrowingMotion slowHistory = None
   \<and> validPairs staleHistory = [(sampleAt 0.9 0.5 500, sampleAt 0.6 0.5 520)]
   \<and> detectThrowingMotion staleHistory = Some (- 15, 0)"
proof -
  have fast: "detectThrowingMotion fastHistory = Some (15, 0)"
    using detectThrowingMotion_average [of fastHistory]
    by (simp add: validPairs_def averageVelocity_def magnitude_def pairVelocity_def pairDt_def
        fastHistory_def sampleAt_def THROW_VELOCITY_THRESHOLD_def sqrt_threshold)
  have short: "length shortHistory < 3 \<and> detectThrowingMotion shortHistory = None"
    using detectThrowingMotion_average [of shortHistory]
    by (simp add: shortHistory_def)
  have slowv: "averageVelocity slowHistory = (5, 0)"
    by (simp add: validPairs_def averageVelocity_def pairVelocity_def pairDt_def
        slowHistory_def sampleAt_def)
  have slowm: "magnitude (averageVelocity slowHistory) \<le> THROW_VELOCITY_THRESHOLD"
    using sqrt_threshold [of 25]
    by (simp add: slowv magnitude_def THROW_VELOCITY_THRESHOLD_def)
  have slow: "detectThrowingMotion slowHistory = None"
    using detectThrowingMotion_average [of slowHistory] slowm by blast
  have stalep: "validPairs staleHistory = [(sampleAt 0.9 0.5 500, sampleAt 0.6 0.5 520)]"
    by (simp add: validPairs_def pairDt_def staleHistory_def sampleAt_def)
  have stale: "detectThrowingMotion staleHistory = Some (- 15, 0)"
    using detectThrowingMotion_average [of staleHistory]
    by (simp add: stalep averageVelocity_def magnitude_def pairVelocity_def pairDt_def
        sampleAt_def THROW_VELOCITY_THRESHOLD_def sqrt_threshold)
       (simp add: staleHistory_def)
  from fast short slowm slow stalep stale show ?thesis by blast
qed

section \<open>Projectile lifetime\<close>

lemma life_update: "life (fst (update ball)) = life ball - 1"
  by (simp add: update_def Let_def)

lemma alive_update: "snd (update ball) = (0 < life ball - 1)"
  by (simp add: update_def Let_def)

lemma life_survivors:
  "map life (survivors bs) = filter (\<lambda>l. 0 < l) (map (\<lambda>l. l - 1) (map life bs))"
  by (induction bs) (simp_all add: survivors_def life_update alive_update)

lemma runEngine_Tick: "runEngine balls (Tick # ops) = runEngine (survivors balls) ops"
  by (simp add: runEngine_def updateMagicBalls_eq)

lemma filter_shift:
  "filter (\<lambda>l. 0 < l) (map (\<lambda>l. l - int k) (filter (\<lambda>l. 0 < l) (map (\<lambda>l. l - 1) ls))) =
   filter (\<lambda>l. 0 < l) (map (\<lambda>l::int. l - int (Suc k)) ls)"
  by (induction ls) auto

lemma life_ticks:
  "map life (runEngine balls (replicate (Suc k) Tick)) =
     filter (\<lambda>l. 0 < l) (map (\<lambda>l. l - int (Suc k)) (map life balls))"
proof (induction k arbitrary: balls)
  case 0
  have "runEngine (survivors balls) [] = survivors balls" by (simp add: runEngine_def)
  then show ?case by (simp add: runEngine_Tick life_survivors)
next
  case (Suc k)
  have "replicate (Suc (Suc k)) Tick = Tick # replicate (Suc k) Tick" by simp
  then have "map life (runEngine balls (replicate (Suc (Suc k)) Tick)) =
        map life (runEngine (survivors balls) (replicate (Suc k) Tick))"
    by (simp only: runEngine_Tick)
  also have "\<dots> = filter (\<lambda>l. 0 < l) (map (\<lambda>l. l - int (Suc k)) (map life (survivors balls)))"
    by (rule Suc.IH)
  also have "\<dots> = filter (\<lambda>l. 0 < l) (map (\<lambda>l. l - int (Suc (Suc k))) (map life balls))"
    by (simp only: life_survivors filter_shift)
  finally show ?case .
qed

lemma new_ball_gone:
  "runEngine [newMagicBall px py pvx pvy c] (replicate 120 Tick) = []"
proof -
  have "map life (runEngine [newMagicBall px py pvx pvy c] (replicate (Suc 119) Tick)) = []"
    unfolding life_ticks by (simp add: newMagicBall_def)
  then show ?thesis by simp
qed

lemma new_ball_present:
  "k < 120 \<Longrightarrow>
   map life (runEngine [newMagicBall px py pvx pvy c] (replicate k Tick)) = [120 - int k]"
proof (cases k)
  case 0
  then show ?thesis by (simp add: runEngine_def newMagicBall_def)
next
  case (Suc j)
  assume "k < 120"
  with Suc show ?thesis unfolding Suc life_ticks by (simp add: newMagicBall_def)
qed

text \<open>Every projectile the engine ever holds has a life between 1 and 120.\<close>

lemma engineStep_life:
  assumes "\<forall>ball \<in> set balls. 0 < life ball \<and> life ball \<le> 120"
  shows "\<forall>ball \<in> set (engineStep balls op). 0 < life ball \<and> life ball \<le> 120"
proof (cases op)
  case (Throw env rnd handCoords velocity isLeftHand)
  have "set (engineStep balls op) \<subseteq> set (balls @ [thrownBall env rnd handCoords velocity])"
    unfolding Throw engineStep.simps throwMagicBall_def shiftWhileLonger_drop
    by (rule set_drop_subset)
  moreover have "life (thrownBall env rnd handCoords velocity) = 120"
    by (simp add: thrownBall_def newMagicBall_def Let_def)
  ultimately show ?thesis using assms by auto
next
  case Tick
  show ?thesis
    using assms unfolding Tick
    by (auto simp add: updateMagicBalls_eq survivors_def life_update alive_update)
qed

lemma runEngine_life:
  "\<forall>ball \<in> set balls. 0 < life ball \<and> life ball \<le> 120 \<Longrightarrow>
   \<forall>ball \<in> set (runEngine balls ops). 0 < life ball \<and> life ball \<le> 120"
  unfolding runEngine_def
proof (induction ops arbitrary: balls)
  case Nil
  then show ?case by simp
next
  case (Cons op ops)
  from Cons.IH [OF engineStep_life [OF Cons.prems, of op]] show ?case by simp
qed

text \<open>
  C4. Each update lowers \<open>life\<close> by exactly 1 and reports the projectile alive when the
  new \<open>life\<close> is positive; a tick keeps exactly the projectiles reported alive. The
  projectiles of the collection always have a positive \<open>life\<close>, and for those the
  projectile is removed exactly when its \<open>life\<close> has reached 0. After \<open>k + 1\<close> ticks the
  lives in the collection are the old ones lowered by \<open>k + 1\<close>, the positive ones only.
  So a new projectile (\<open>life = maxLife = 120\<close>) is still there after fewer than 120 ticks
  and is removed by tick 120.
\<close>

theorem projectile_life_countdown:
  "life (fst (update ball)) = life ball - 1
   \<and> snd (update ball) = (0 < life (fst (update ball)))
   \<and> fst (updateMagicBalls balls) = survivors balls
   \<and> (\<forall>b \<in> set (runEngine [] ops). 0 < life b)
   \<and> (0 < life ball \<longrightarrow> snd (update ball) = (life (fst (update ball)) \<noteq> 0))
   \<and> map life (runEngine balls (replicate (Suc k) Tick)) =
       filter (\<lambda>l. 0 < l) (map (\<lambda>l. l - int (Suc k)) (map life balls))
   \<and> (k < 120 \<longrightarrow>
        map life (runEngine [newMagicBall px py pvx pvy c] (replicate k Tick)) = [120 - int k])
   \<and> runEngine [newMagicBall px py pvx pvy c] (replicate 120 Tick) = []"
proof -
  have "\<forall>b \<in> set (runEngine [] ops). 0 < life b \<and> life b \<le> 120"
    by (rule runEngine_life) simp
  then have "\<forall>b \<in> set (runEngine [] ops). 0 < life b" by blast
  moreover have "0 < life ball \<longrightarrow> snd (update ball) = (life (fst (update ball)) \<noteq> 0)"
    by (auto simp add: life_update alive_update)
  moreover have "snd (update ball) = (0 < life (fst (update ball)))"
    by (simp add: life_update alive_update)
  ultimately show ?thesis
    using life_ticks [of balls k] new_ball_present [of k px py pvx pvy c]
      new_ball_gone [of px py pvx pvy c]
    by (simp add: life_update updateMagicBalls_eq)
qed

theorem projectile_life_countdown_witness:
  "life (fst (update lastTickBall)) = 0 \<and> \<not> snd (update lastTickBall)
   \<and> fst (updateMagicBalls [lastTickBall]) = []
   \<and> life (fst (update restingBall)) = 119 \<and> snd (update restingBall)
   \<and> map life (runEngine [restingBall] (replicate 119 Tick)) = [1]
   \<and> runEngine [restingBall] (replicate 120 Tick) = []"
proof -
  note last = projectile_life_countdown [of lastTickBall "[lastTickBall]" "[]" 0 0 0 0 0 exampleColor]
  note rest = projectile_life_countdown [of restingBall "[restingBall]" "[]" 119 "0.5" "0.5" 0 0 exampleColor]
  have l1: "life lastTickBall = 1" by (simp add: lastTickBall_def)
  have l120: "life restingBall = 120" by (simp add: restingBall_def newMagicBall_def)
  from last l1 have a: "life (fst (update lastTickBall)) = 0 \<and> \<not> snd (update lastTickBall)"
    by simp
  from last a have b: "fst (updateMagicBalls [lastTickBall]) = []"
    by (simp add: survivors_def)
  from rest l120 have c: "life (fst (update restingBall)) = 119 \<and> snd (update restingBall)"
    by simp
  from rest have d: "map life (runEngine [restingBall] (replicate 119 Tick)) = [1]"
    by (simp add: restingBall_def)
  from rest have e: "runEngine [restingBall] (replicate 120 Tick) = []"
    by (simp add: restingBall_def)
  from a b c d e show ?thesis by blast
qed

section \<open>Per-tick physics\<close>

lemma update_vy: "vy (fst (update ball)) = vy ball + 0.5"
  by (simp add: update_def Let_def)

lemma update_y: "y (fst (update ball)) = y ball + vy ball * 0.016"
  by (simp add: update_def Let_def)

lemma update_x:
  "x (fst (update ball)) =
     (let nx = x ball + vx ball * 0.016 in if nx < 0 \<or> nx > 1 then max 0 (min 1 nx) else nx)"
  by (simp add: update_def Let_def)

text \<open>
  C5. In simulation space a point higher on the page has the larger \<open>y\<close>. A projectile
  at rest at the centre has vertical velocity \<open>+0.5\<close> after one update and has risen to
  \<open>y = 0.508\<close> after two: the update adds \<open>0.5\<close> to the vertical velocity on every tick
  and moves the position by the old velocity times \<open>0.016\<close>.
\<close>

theorem update_gravity_raises_resting_ball:
  "normalizedY exampleEnv \<lparr>pageX = 256, pageY = 64\<rparr>
     > normalizedY exampleEnv \<lparr>pageX = 256, pageY = 128\<rparr>
   \<and> vy restingBall = 0 \<and> y restingBall = 0.5
   \<and> vy (fst (update restingBall)) = 0.5
   \<and> y (fst (update restingBall)) = 0.5
   \<and> vy (fst (update (fst (update restingBall)))) = 1
   \<and> y (fst (update (fst (update restingBall)))) = 0.508"
  by (simp add: update_vy update_y)
     (simp add: restingBall_def newMagicBall_def normalizedY_def pixelRatio_def exampleEnv_def)

section \<open>Trail impulses\<close>

lemma trailPoint_0: "trailPoint ball 0 = (x ball + 0.01, y ball)"
  by (simp add: trailPoint_def)

lemma trailPoint_1: "trailPoint ball 1 = (x ball - 0.005, y ball + sqrt 3 / 200)"
  by (simp add: trailPoint_def cos_120' sin_120' Let_def)

lemma cos_240: "cos (4 * pi / 3) = - (1 / 2)"
proof -
  have "4 * pi / 3 = pi / 3 + pi" by simp
  then show ?thesis by (simp only: cos_periodic_pi cos_60)
qed

lemma sin_240: "sin (4 * pi / 3) = - (sqrt 3 / 2)"
proof -
  have "4 * pi / 3 = pi / 3 + pi" by simp
  then show ?thesis by (simp only: sin_periodic_pi sin_60)
qed

lemma trailPoint_2: "trailPoint ball 2 = (x ball - 0.005, y ball - sqrt 3 / 200)"
  by (simp add: trailPoint_def cos_240 sin_240 Let_def)

lemma trailPoint_angle:
  "trailPoint ball i =
     (x ball + 0.01 * cos (2 * pi * real i / 3), y ball + 0.01 * sin (2 * pi * real i / 3))"
proof -
  have "(real i / 3) * pi * 2 = 2 * pi * real i / 3" by simp
  then show ?thesis unfolding trailPoint_def Let_def by (simp only: mult.commute)
qed

lemma trailSplat_eq:
  "trailSplat ball i = map (trailImpulse ball) (filter inUnitSquare [trailPoint ball i])"
  by (simp add: trailSplat_def trailImpulse_def inUnitSquare_def effectColor_def Let_def
      mult.commute split: prod.splits)

lemma upt_3: "[0..<3] = [0, 1, 2]"
  by (simp add: upt_rec)

lemma createFluidEffect_eq:
  "createFluidEffect ball =
     map (trailImpulse ball)
       (filter inUnitSquare [trailPoint ball 0, trailPoint ball 1, trailPoint ball 2])"
  by (simp add: createFluidEffect_def upt_3 trailSplat_eq)

lemma sqrt_3_le_2: "sqrt 3 \<le> 2"
proof -
  have "sqrt 3 \<le> sqrt 4" by (simp only: real_sqrt_le_iff)
  moreover have "sqrt 4 = 2" using real_sqrt_abs [of 2] by simp
  ultimately show ?thesis by simp
qed

text \<open>
  C7 as stated fails on the colour: the colour of an impulse is not the base colour
  times \<open>life / maxLife\<close>. A projectile of colour \<open>(1, 0.5, 0.25)\<close> at half of its life
  sends impulses of colour \<open>(0.4, 0.2, 0.1)\<close>, not \<open>(0.5, 0.25, 0.125)\<close>.
\<close>

theorem trail_color_counterexample:
  "trailPoint fadingBall 0 = (0.51, 0.5)
   \<and> createSplat 0.51 0.5 0 0 \<lparr>r = 0.4, g = 0.2, b = 0.1\<rparr> \<in> set (createFluidEffect fadingBall)
   \<and> \<lparr>r = 0.4, g = 0.2, b = 0.1\<rparr> \<noteq>
       \<lparr>r = r (color fadingBall) * (real_of_int (life fadingBall) / real_of_int (maxLife fadingBall)),
        g = g (color fadingBall) * (real_of_int (life fadingBall) / real_of_int (maxLife fadingBall)),
        b = b (color fadingBall) * (real_of_int (life fadingBall) / real_of_int (maxLife fadingBall))\<rparr>"
  by (simp add: createFluidEffect_eq trailPoint_0 trailPoint_1 trailPoint_2 inUnitSquare_def
      trailImpulse_def)
     (simp add: fadingBall_def restingBall_def newMagicBall_def exampleColor_def)

text \<open>
  C7, amended. The trail of a projectile is made of three attempts, at the points at
  distance 0.01 from its position in the directions 0, 120 and 240 degrees. The attempts
  whose point lies in the unit square are emitted, in that order, and the others are
  skipped. Every emitted impulse carries the force 20 times the velocity of the
  projectile and the base colour scaled by \<open>0.8 * life / maxLife\<close>. In a tick the
  impulses are those of the surviving projectiles, from the last one to the first.
\<close>

theorem createFluidEffect_trail:
  "createFluidEffect ball =
     map (trailImpulse ball)
       (filter inUnitSquare [trailPoint ball 0, trailPoint ball 1, trailPoint ball 2])
   \<and> trailPoint ball i =
       (x ball + 0.01 * cos (2 * pi * real i / 3), y ball + 0.01 * sin (2 * pi * real i / 3))
   \<and> trailPoint ball 0 = (x ball + 0.01, y ball)
   \<and> trailPoint ball 1 = (x ball - 0.005, y ball + sqrt 3 / 200)
   \<and> trailPoint ball 2 = (x ball - 0.005, y ball - sqrt 3 / 200)
   \<and> snd (updateMagicBalls balls) = concat (map createFluidEffect (rev (survivors balls)))"
proof (intro conjI)
  show "snd (updateMagicBalls balls) = concat (map createFluidEffect (rev (survivors balls)))"
    by (simp add: updateMagicBalls_eq)
qed (rule createFluidEffect_eq trailPoint_angle trailPoint_0 trailPoint_1 trailPoint_2)+

theorem createFluidEffect_trail_witness:
  "\<not> inUnitSquare (trailPoint edgeBall 0)
   \<and> createFluidEffect edgeBall =
       [createSplat 0.99 (0.5 + sqrt 3 / 200) 5 0 \<lparr>r = 0.4, g = 0.2, b = 0.1\<rparr>,
        createSplat 0.99 (0.5 - sqrt 3 / 200) 5 0 \<lparr>r = 0.4, g = 0.2, b = 0.1\<rparr>]"
proof -
  note trail = createFluidEffect_trail [of edgeBall 0 "[]"]
  have pos: "x edgeBall = 0.995" "y edgeBall = 0.5"
    by (simp_all add: edgeBall_def newMagicBall_def)
  from trail have "trailPoint edgeBall 0 = (x edgeBall + 0.01, y edgeBall)" by blast
  then have p0: "trailPoint edgeBall 0 = (1.005, 0.5)" unfolding pos by simp
  from trail have "trailPoint edgeBall 1 = (x edgeBall - 0.005, y edgeBall + sqrt 3 / 200)"
    by blast
  then have p1: "trailPoint edgeBall 1 = (0.99, 0.5 + sqrt 3 / 200)" unfolding pos by simp
  from trail have "trailPoint edgeBall 2 = (x edgeBall - 0.005, y edgeBall - sqrt 3 / 200)"
    by blast
  then have p2: "trailPoint edgeBall 2 = (0.99, 0.5 - sqrt 3 / 200)" unfolding pos by simp
  have out: "\<not> inUnitSquare (trailPoint edgeBall 0)"
    unfolding p0 inUnitSquare_def by simp
  have root: "0 \<le> sqrt 3" "sqrt 3 \<le> 2" by (simp_all add: sqrt_3_le_2)
  have q1: "trailPoint edgeBall 1 = (99 / 100, 1 / 2 + sqrt 3 / 200)" unfolding p1 by simp
  have q2: "trailPoint edgeBall 2 = (99 / 100, 1 / 2 - sqrt 3 / 200)" unfolding p2 by simp
  have in1: "inUnitSquare (trailPoint edgeBall 1)"
    unfolding q1 inUnitSquare_def fst_conv snd_conv using root by linarith
  have in2: "inUnitSquare (trailPoint edgeBall 2)"
    unfolding q2 inUnitSquare_def fst_conv snd_conv using root by linarith
  from trail have "createFluidEffect edgeBall =
     map (trailImpulse edgeBall)
       (filter inUnitSquare
          [trailPoint edgeBall 0, trailPoint edgeBall 1, trailPoint edgeBall 2])"
    by blast
  with out in1 in2
  have "createFluidEffect edgeBall =
          [trailImpulse edgeBall (trailPoint edgeBall 1), trailImpulse edgeBall (trailPoint edgeBall 2)]"
    by (simp only: filter.simps list.map if_True if_False)
  then have "createFluidEffect edgeBall =
       [createSplat 0.99 (0.5 + sqrt 3 / 200) 5 0 \<lparr>r = 0.4, g = 0.2, b = 0.1\<rparr>,
        createSplat 0.99 (0.5 - sqrt 3 / 200) 5 0 \<lparr>r = 0.4, g = 0.2, b = 0.1\<rparr>]"
    unfolding p1 p2 trailImpulse_def
    by (simp add: edgeBall_def newMagicBall_def exampleColor_def)
  with out show ?thesis by blast
qed

section \<open>Coordinate round trip\<close>

lemma pixelRatio_nonzero: "pixelRatio env \<noteq> 0"
  by (simp add: pixelRatio_def)

text \<open>
  C6 as stated fails in the vertical coordinate: on a page of 512 by 256, the point
  (64, 64) is sent to (0.125, 0.75) and \<open>getPageCoords\<close> sends that to (64, 192),
  which is 128 page units away from the point.
\<close>

theorem round_trip_counterexample:
  "normalizedX exampleEnv interiorPoint = 0.125
   \<and> normalizedY exampleEnv interiorPoint = 0.75
   \<and> getPageCoords exampleEnv
         (Some \<lparr>x = normalizedX exampleEnv interiorPoint, y = normalizedY exampleEnv interiorPoint\<rparr>)
       = Some \<lparr>pageX = 64, pageY = 192\<rparr>
   \<and> \<bar>192 - pageY interiorPoint\<bar> = 128"
  by (simp add: getPageCoords_def normalizedX_def normalizedY_def pixelRatio_def exampleEnv_def
      interiorPoint_def)

text \<open>
  C6, amended. On a canvas of non-zero width and height, converting a page point to
  simulation space and back with \<open>getPageCoords\<close> returns the horizontal coordinate
  and mirrors the vertical one: \<open>pageY\<close> becomes \<open>height / pixelRatio - pageY\<close>.
  The other way round, a normalized point taken to the page and converted to
  simulation space keeps \<open>x\<close> and becomes \<open>1 - y\<close>. (Exact over the reals.)
\<close>

theorem round_trip_mirrors_vertical:
  assumes "width (fluidCanvasElement env) \<noteq> 0" and "height (fluidCanvasElement env) \<noteq> 0"
  shows "getPageCoords env (Some \<lparr>x = normalizedX env p, y = normalizedY env p\<rparr>) =
           Some \<lparr>pageX = pageX p,
                 pageY = height (fluidCanvasElement env) / pixelRatio env - pageY p\<rparr>
         \<and> (getPageCoords env (Some n) = Some q \<longrightarrow>
              normalizedX env q = x n \<and> normalizedY env q = 1 - y n)"
proof -
  have pr: "pixelRatio env \<noteq> 0" by (rule pixelRatio_nonzero)
  have "getPageCoords env (Some \<lparr>x = normalizedX env p, y = normalizedY env p\<rparr>) =
           Some \<lparr>pageX = pageX p,
                 pageY = height (fluidCanvasElement env) / pixelRatio env - pageY p\<rparr>"
    using assms pr
    by (simp add: getPageCoords_def normalizedX_def normalizedY_def Let_def field_simps)
  moreover have "getPageCoords env (Some n) = Some q \<longrightarrow>
              normalizedX env q = x n \<and> normalizedY env q = 1 - y n"
    using assms pr
    by (auto simp add: getPageCoords_def normalizedX_def normalizedY_def Let_def)
  ultimately show ?thesis by blast
qed

theorem round_trip_mirrors_vertical_witness:
  "width (fluidCanvasElement exampleEnv) \<noteq> 0 \<and> height (fluidCanvasElement exampleEnv) \<noteq> 0
   \<and> getPageCoords exampleEnv
         (Some \<lparr>x = normalizedX exampleEnv interiorPoint, y = normalizedY exampleEnv interiorPoint\<rparr>)
       = Some \<lparr>pageX = 64, pageY = 256 - 64\<rparr>
   \<and> getPageCoords exampleEnv (Some (pointAt 0.125 0.25)) = Some interiorPoint
   \<and> normalizedX exampleEnv interiorPoint = x (pointAt 0.125 0.25)
   \<and> normalizedY exampleEnv interiorPoint = 1 - y (pointAt 0.125 0.25)"
proof -
  have w: "width (fluidCanvasElement exampleEnv) \<noteq> 0"
    and h: "height (fluidCanvasElement exampleEnv) \<noteq> 0"
    by (simp_all add: exampleEnv_def)
  note rt = round_trip_mirrors_vertical [OF w h, of interiorPoint "pointAt 0.125 0.25" interiorPoint]
  have preimage: "getPageCoords exampleEnv (Some (pointAt 0.125 0.25)) = Some interiorPoint"
    by (simp add: getPageCoords_def pointAt_def pixelRatio_def exampleEnv_def interiorPoint_def)
  from rt have "getPageCoords exampleEnv
         (Some \<lparr>x = normalizedX exampleEnv interiorPoint, y = normalizedY exampleEnv interiorPoint\<rparr>)
       = Some \<lparr>pageX = 64, pageY = 256 - 64\<rparr>"
    by (simp add: pixelRatio_def exampleEnv_def interiorPoint_def)
  moreover from rt preimage have "normalizedX exampleEnv interiorPoint = x (pointAt 0.125 0.25)
      \<and> normalizedY exampleEnv interiorPoint = 1 - y (pointAt 0.125 0.25)"
    by blast
  ultimately show ?thesis using w h preimage by blast
qed

section \<open>Zero-length finger direction\<close>

text \<open>The marking of divisions by zero is not idle: it shows on a canvas without width.\<close>

lemma createFingerRay_zero_canvas:
  "createFingerRay noWidthEnv exampleIndex now rnd fingerUpHand handCoords isLeftHand =
     Inl DivisionByZero"
  by (simp add: createFingerRay_def elementAt_def fingerUpHand_def exampleIndex_def
      getPageCoords_def pixelRatio_def noWidthEnv_def pointAt_def checkedDivide_def
      andThen_def Let_def)

text \<open>
  C9. When the index fingertip and the base of the index finger are both present and
  have the same \<open>x\<close> and \<open>y\<close>, \<open>createFingerRay\<close> returns at the zero-length test: it
  makes no call on the fluid simulation and no division by zero, whatever the canvas,
  the pixel ratio, the clock and the random values are.
\<close>

theorem createFingerRay_zero_length:
  assumes "elementAt lms (INDEX_FINGER_TIP hli) = Some tip"
    and "elementAt lms (INDEX_FINGER_MCP hli) = Some mcp"
    and "x tip = x mcp" and "y tip = y mcp"
  shows "createFingerRay env hli now rnd lms handCoords isLeftHand = Inr []"
  using assms by (simp add: createFingerRay_def getPageCoords_def Let_def)

theorem createFingerRay_zero_length_witness:
  "elementAt collapsedHand (INDEX_FINGER_TIP exampleIndex) = Some (pointAt 0.25 0.5)
   \<and> elementAt collapsedHand (INDEX_FINGER_MCP exampleIndex) = Some (pointAt 0.25 0.5)
   \<and> createFingerRay degenerateEnv exampleIndex 1000 exampleRnd collapsedHand
        \<lparr>pageX = 128, pageY = 128\<rparr> True = Inr []"
proof -
  have tip: "elementAt collapsedHand (INDEX_FINGER_TIP exampleIndex) = Some (pointAt 0.25 0.5)"
    by (simp add: elementAt_def collapsedHand_def exampleIndex_def)
  have mcp: "elementAt collapsedHand (INDEX_FINGER_MCP exampleIndex) = Some (pointAt 0.25 0.5)"
    by (simp add: elementAt_def collapsedHand_def exampleIndex_def)
  from createFingerRay_zero_length [OF tip mcp refl refl] tip mcp show ?thesis by blast
qed

section \<open>Pointing dispatch\<close>

lemma filter_pointing_fistCalls: "filter isPointingCall (fistCalls coords isLeftHand) = []"
  by (simp add: fistCalls_def split: option.splits)

lemma filter_pointing_touchCalls: "filter isPointingCall (touchCalls prev ts) = []"
  by (simp add: touchCalls_def Let_def)

lemma filter_pointing_palmCalls:
  "filter isPointingCall (palmCalls leftHandCoords rightHandCoords prev ts) = []"
  by (simp add: palmCalls_def filter_pointing_touchCalls split: option.splits)

lemma filter_pointing_fluid: "filter isPointingCall (map fluidSimulation calls) = []"
  by (induction calls) simp_all

lemma filter_pointing_singleRayCalls:
  "filter isPointingCall (singleRayCalls coords lms isLeftHand) = singleRayCalls coords lms isLeftHand"
  by (simp add: singleRayCalls_def split: option.splits)

lemma filter_pointing_pointingCalls:
  "filter isPointingCall (pointingCalls lp rp hands) = pointingCalls lp rp hands"
  by (simp add: pointingCalls_def filter_pointing_singleRayCalls split: option.splits)

lemma filter_pointing_processResults:
  "filter isPointingCall (snd (processResults st fr)) =
     pointingCalls (gestureCoords fr (left (currentHandData fr)) POINTING_GESTURE)
       (gestureCoords fr (right (currentHandData fr)) POINTING_GESTURE) (currentHandData fr)"
  by (simp add: processResults_def Let_def filter_pointing_fistCalls filter_pointing_palmCalls
      filter_pointing_fluid filter_pointing_pointingCalls)

lemma gestureCoords_landmarks:
  "gestureCoords fr hand name = Some c \<Longrightarrow> \<exists>ls. landmarksOf hand = Some ls"
  by (cases "landmarksOf hand")
     (simp_all add: gestureCoords_def getHandCentroid_def getPageCoords_def split: if_splits)

lemma gestureCoords_other: "\<not> hasGesture hand name \<Longrightarrow> gestureCoords fr hand name = None"
  by (simp add: gestureCoords_def)

text \<open>
  The dispatch on anchors that pass the test of the source (defined, and neither
  coordinate zero). Both hands pointing: the only pointing generator invoked is the
  dual-ray one, once. One hand pointing while the other does not point: the finger-ray
  generator is invoked once, for that hand, with its landmarks and anchor.
\<close>

lemma pointing_dispatch_nonzero:
  "(hasGesture (left (currentHandData fr)) POINTING_GESTURE
      \<and> hasGesture (right (currentHandData fr)) POINTING_GESTURE
      \<and> gestureCoords fr (left (currentHandData fr)) POINTING_GESTURE = Some lc
      \<and> pageX lc \<noteq> 0 \<and> pageY lc \<noteq> 0
      \<and> gestureCoords fr (right (currentHandData fr)) POINTING_GESTURE = Some rc
      \<and> pageX rc \<noteq> 0 \<and> pageY rc \<noteq> 0
    \<longrightarrow> filter isPointingCall (snd (processResults st fr)) =
          [createBothPointingRaysToCenter lc rc])
   \<and> (hasGesture (left (currentHandData fr)) POINTING_GESTURE
      \<and> \<not> hasGesture (right (currentHandData fr)) POINTING_GESTURE
      \<and> gestureCoords fr (left (currentHandData fr)) POINTING_GESTURE = Some lc
      \<and> pageX lc \<noteq> 0 \<and> pageY lc \<noteq> 0
    \<longrightarrow> (\<exists>ls. landmarksOf (left (currentHandData fr)) = Some ls
          \<and> filter isPointingCall (snd (processResults st fr)) = [createFingerRayCall ls lc True]))
   \<and> (\<not> hasGesture (left (currentHandData fr)) POINTING_GESTURE
      \<and> hasGesture (right (currentHandData fr)) POINTING_GESTURE
      \<and> gestureCoords fr (right (currentHandData fr)) POINTING_GESTURE = Some rc
      \<and> pageX rc \<noteq> 0 \<and> pageY rc \<noteq> 0
    \<longrightarrow> (\<exists>ls. landmarksOf (right (currentHandData fr)) = Some ls
          \<and> filter isPointingCall (snd (processResults st fr)) = [createFingerRayCall ls rc False]))"
proof (intro conjI impI)
  assume "hasGesture (left (currentHandData fr)) POINTING_GESTURE
      \<and> hasGesture (right (currentHandData fr)) POINTING_GESTURE
      \<and> gestureCoords fr (left (currentHandData fr)) POINTING_GESTURE = Some lc
      \<and> pageX lc \<noteq> 0 \<and> pageY lc \<noteq> 0
      \<and> gestureCoords fr (right (currentHandData fr)) POINTING_GESTURE = Some rc
      \<and> pageX rc \<noteq> 0 \<and> pageY rc \<noteq> 0"
  then show "filter isPointingCall (snd (processResults st fr)) =
          [createBothPointingRaysToCenter lc rc]"
    by (simp add: filter_pointing_processResults pointingCalls_def)
next
  assume a: "hasGesture (left (currentHandData fr)) POINTING_GESTURE
      \<and> \<not> hasGesture (right (currentHandData fr)) POINTING_GESTURE
      \<and> gestureCoords fr (left (currentHandData fr)) POINTING_GESTURE = Some lc
      \<and> pageX lc \<noteq> 0 \<and> pageY lc \<noteq> 0"
  then obtain ls where ls: "landmarksOf (left (currentHandData fr)) = Some ls"
    using gestureCoords_landmarks by blast
  from a have "gestureCoords fr (right (currentHandData fr)) POINTING_GESTURE = None"
    by (simp add: gestureCoords_other)
  with a ls
  have "filter isPointingCall (snd (processResults st fr)) = [createFingerRayCall ls lc True]"
    by (simp add: filter_pointing_processResults pointingCalls_def singleRayCalls_def)
  with ls show "\<exists>ls. landmarksOf (left (currentHandData fr)) = Some ls
          \<and> filter isPointingCall (snd (processResults st fr)) = [createFingerRayCall ls lc True]"
    by blast
next
  assume a: "\<not> hasGesture (left (currentHandData fr)) POINTING_GESTURE
      \<and> hasGesture (right (currentHandData fr)) POINTING_GESTURE
      \<and> gestureCoords fr (right (currentHandData fr)) POINTING_GESTURE = Some rc
      \<and> pageX rc \<noteq> 0 \<and> pageY rc \<noteq> 0"
  then obtain ls where ls: "landmarksOf (right (currentHandData fr)) = Some ls"
    using gestureCoords_landmarks by blast
  from a have "gestureCoords fr (left (currentHandData fr)) POINTING_GESTURE = None"
    by (simp add: gestureCoords_other)
  with a ls
  have "filter isPointingCall (snd (processResults st fr)) = [createFingerRayCall ls rc False]"
    by (simp add: filter_pointing_processResults pointingCalls_def singleRayCalls_def)
  with ls show "\<exists>ls. landmarksOf (right (currentHandData fr)) = Some ls
          \<and> filter isPointingCall (snd (processResults st fr)) = [createFingerRayCall ls rc False]"
    by blast
qed

lemma gestureCoords_handShowing:
  "gestureCoords (frameWith l rt) (Some (handShowing name px)) name =
     Some \<lparr>pageX = px * 512, pageY = 128\<rparr>"
  by (simp add: gestureCoords_def hasGesture_def handShowing_def landmarksOf_def
      getHandCentroid_def elementAt_def exampleIndex_def triangleCentroid_def pointAt_def
      getPageCoords_def frameWith_def exampleEnv_def pixelRatio_def Let_def)

lemma hands_frameWith:
  "left (currentHandData (frameWith l rt)) = l" "right (currentHandData (frameWith l rt)) = rt"
  by (simp_all add: frameWith_def)

lemma hasGesture_handShowing:
  "hasGesture (Some (handShowing name px)) other = (name = other)"
  "hasGesture None other = False"
  "landmarksOf (Some (handShowing name px)) = Some (replicate 21 (pointAt px 0.5))"
  by (simp_all add: hasGesture_def handShowing_def landmarksOf_def)

lemma pointing_dispatch_nonzero_examples:
  "filter isPointingCall (snd (processResults initialState bothPointingFrame)) =
     [createBothPointingRaysToCenter \<lparr>pageX = 128, pageY = 128\<rparr> \<lparr>pageX = 384, pageY = 128\<rparr>]
   \<and> filter isPointingCall (snd (processResults initialState leftPointingFrame)) =
     [createFingerRayCall (replicate 21 (pointAt 0.25 0.5)) \<lparr>pageX = 128, pageY = 128\<rparr> True]
   \<and> filter isPointingCall (snd (processResults initialState rightPointingFrame)) =
     [createFingerRayCall (replicate 21 (pointAt 0.75 0.5)) \<lparr>pageX = 384, pageY = 128\<rparr> False]"
proof -
  let ?lc = "\<lparr>pageX = 128, pageY = 128\<rparr>"
  let ?rc = "\<lparr>pageX = 384, pageY = 128\<rparr>"
  have bl: "gestureCoords bothPointingFrame (left (currentHandData bothPointingFrame))
              POINTING_GESTURE = Some ?lc"
    and br: "gestureCoords bothPointingFrame (right (currentHandData bothPointingFrame))
              POINTING_GESTURE = Some ?rc"
    and bh: "hasGesture (left (currentHandData bothPointingFrame)) POINTING_GESTURE"
      "hasGesture (right (currentHandData bothPointingFrame)) POINTING_GESTURE"
    by (simp_all add: bothPointingFrame_def hands_frameWith POINTING_GESTURE_def
        gestureCoords_handShowing hasGesture_handShowing)
  from pointing_dispatch_nonzero [of bothPointingFrame ?lc ?rc initialState] bl br bh
  have both: "filter isPointingCall (snd (processResults initialState bothPointingFrame)) =
     [createBothPointingRaysToCenter ?lc ?rc]"
    by simp
  have ll: "gestureCoords leftPointingFrame (left (currentHandData leftPointingFrame))
              POINTING_GESTURE = Some ?lc"
    and lh: "hasGesture (left (currentHandData leftPointingFrame)) POINTING_GESTURE"
      "\<not> hasGesture (right (currentHandData leftPointingFrame)) POINTING_GESTURE"
    and lm: "landmarksOf (left (currentHandData leftPointingFrame)) =
              Some (replicate 21 (pointAt 0.25 0.5))"
    by (simp_all add: leftPointingFrame_def hands_frameWith POINTING_GESTURE_def
        gestureCoords_handShowing hasGesture_handShowing)
  from pointing_dispatch_nonzero [of leftPointingFrame ?lc ?rc initialState] ll lh lm
  have leftOnly: "filter isPointingCall (snd (processResults initialState leftPointingFrame)) =
     [createFingerRayCall (replicate 21 (pointAt 0.25 0.5)) ?lc True]"
    by simp
  have rr: "gestureCoords rightPointingFrame (right (currentHandData rightPointingFrame))
              POINTING_GESTURE = Some ?rc"
    and rh: "\<not> hasGesture (left (currentHandData rightPointingFrame)) POINTING_GESTURE"
      "hasGesture (right (currentHandData rightPointingFrame)) POINTING_GESTURE"
    and rm: "landmarksOf (right (currentHandData rightPointingFrame)) =
              Some (replicate 21 (pointAt 0.75 0.5))"
    by (simp_all add: rightPointingFrame_def hands_frameWith POINTING_GESTURE_def
        gestureCoords_handShowing hasGesture_handShowing)
  from pointing_dispatch_nonzero [of rightPointingFrame ?lc ?rc initialState] rr rh rm
  have rightOnly: "filter isPointingCall (snd (processResults initialState rightPointingFrame)) =
     [createFingerRayCall (replicate 21 (pointAt 0.75 0.5)) ?rc False]"
    by simp
  from both leftOnly rightOnly show ?thesis by blast
qed

text \<open>
  C8. The claim does not hold on a frame whose anchor has a zero coordinate: the source
  tests \<open>pageX && pageY\<close>, and a number that is zero is falsy. With both hands showing
  \<open>Pointing_Up\<close>, both anchors defined and the left anchor on the left edge of the page
  (\<open>pageX = 0\<close>), the dual-ray generator is not invoked and the right hand gets a finger
  ray. With the left hand alone pointing from that anchor, no pointing generator is
  invoked at all.
\<close>

theorem pointing_dispatch_zero_anchor:
  "hasGesture (left (currentHandData edgePointingFrame)) POINTING_GESTURE
   \<and> hasGesture (right (currentHandData edgePointingFrame)) POINTING_GESTURE
   \<and> gestureCoords edgePointingFrame (left (currentHandData edgePointingFrame)) POINTING_GESTURE =
       Some \<lparr>pageX = 0, pageY = 128\<rparr>
   \<and> gestureCoords edgePointingFrame (right (currentHandData edgePointingFrame)) POINTING_GESTURE =
       Some \<lparr>pageX = 384, pageY = 128\<rparr>
   \<and> filter isPointingCall (snd (processResults initialState edgePointingFrame)) =
       [createFingerRayCall (replicate 21 (pointAt 0.75 0.5)) \<lparr>pageX = 384, pageY = 128\<rparr> False]
   \<and> hasGesture (left (currentHandData edgeLeftOnlyFrame)) POINTING_GESTURE
   \<and> right (currentHandData edgeLeftOnlyFrame) = None
   \<and> gestureCoords edgeLeftOnlyFrame (left (currentHandData edgeLeftOnlyFrame)) POINTING_GESTURE =
       Some \<lparr>pageX = 0, pageY = 128\<rparr>
   \<and> landmarksOf (left (currentHandData edgeLeftOnlyFrame)) =
       Some (replicate 21 (pointAt 0 0.5))
   \<and> filter isPointingCall (snd (processResults initialState edgeLeftOnlyFrame)) = []"
  by (simp add: filter_pointing_processResults edgePointingFrame_def edgeLeftOnlyFrame_def
      hands_frameWith POINTING_GESTURE_def gestureCoords_handShowing gestureCoords_other
      hasGesture_handShowing pointingCalls_def singleRayCalls_def)

section \<open>Touch events\<close>

lemma getEvent_type:
  "type (fst (getEvent prev ts)) =
     (if previousList prev \<noteq> [] \<and> length ts \<le> length (previousList prev)
      then ''touchmove'' else ''touchstart'')"
  by (simp add: getEvent_def createTouchEvent_def previousList_def Let_def)

lemma getEvent_touches: "touches (fst (getEvent prev ts)) = ts"
  by (simp add: getEvent_def createTouchEvent_def Let_def)

lemma touchCalls_eq:
  "touchCalls prev ts =
     (if previousList prev \<noteq> [] \<and> length ts \<le> length (previousList prev)
      then [fluidSimulation (sendTouchMove (createTouchEvent ''touchmove'' ts))]
      else [fluidSimulation (sendTouchStart (createTouchEvent ''touchstart'' ts))])"
  by (simp add: touchCalls_def getEvent_def createTouchEvent_def previousList_def Let_def)

lemma no_touchEnd_fistCalls: "fluidSimulation (sendTouchEnd e) \<notin> set (fistCalls coords isLeftHand)"
  by (simp add: fistCalls_def split: option.splits)

lemma no_touchEnd_pointingCalls:
  "fluidSimulation (sendTouchEnd e) \<notin> set (pointingCalls lp rp hands)"
  by (simp add: pointingCalls_def singleRayCalls_def split: option.splits)

lemma no_touchEnd_palmCalls:
  "fluidSimulation (sendTouchEnd e) \<notin> set (palmCalls lc rc prev ts)"
  by (simp add: palmCalls_def touchCalls_eq split: option.splits)

lemma no_touchEnd_createFluidEffect: "sendTouchEnd e \<notin> set (createFluidEffect ball)"
  by (auto simp add: createFluidEffect_eq trailImpulse_def)

lemma no_touchEnd_updateMagicBalls: "sendTouchEnd e \<notin> set (snd (updateMagicBalls balls))"
  by (simp add: updateMagicBalls_eq no_touchEnd_createFluidEffect)

lemma no_touchEnd_processResults:
  "fluidSimulation (sendTouchEnd e) \<notin> set (snd (processResults st fr))"
  by (auto simp add: processResults_def Let_def no_touchEnd_fistCalls no_touchEnd_pointingCalls
      no_touchEnd_palmCalls no_touchEnd_updateMagicBalls)

lemma no_touchEnd_processFrames:
  "fluidSimulation (sendTouchEnd e) \<notin> set (snd (processFrames st frs))"
proof (induction frs arbitrary: st)
  case Nil
  show ?case by simp
next
  case (Cons fr frs)
  obtain st1 calls1 where one: "processResults st fr = (st1, calls1)"
    by (cases "processResults st fr")
  obtain st2 calls2 where rest: "processFrames st1 frs = (st2, calls2)"
    by (cases "processFrames st1 frs")
  from no_touchEnd_processResults [of e st fr] one
  have "fluidSimulation (sendTouchEnd e) \<notin> set calls1" by simp
  moreover from Cons.IH [of st1] rest
  have "fluidSimulation (sendTouchEnd e) \<notin> set calls2" by simp
  ultimately show ?case using one rest by simp
qed

lemma previousTouches_processResults:
  "previousTouches (fst (processResults st fr)) = Some (frameTouches fr)"
  by (simp add: processResults_def frameTouches_def Let_def)

text \<open>
  C10. In no run of frames, from any state, does the dispatcher call \<open>sendTouchEnd\<close>.
  The event built by \<open>getEvent\<close> has type \<open>touchmove\<close> exactly when the previous touch
  list is non-empty and at least as long as the current one, and \<open>touchstart\<close>
  otherwise (an undefined previous list counts as empty); the touch dispatch sends
  that one event with the matching call. The previous touch list of a frame is the
  touch list of the frame before it.
\<close>

theorem touchend_unreachable:
  "(\<forall>e. fluidSimulation (sendTouchEnd e) \<notin> set (snd (processFrames st frs)))
   \<and> type (fst (getEvent prev ts)) =
       (if previousList prev \<noteq> [] \<and> length ts \<le> length (previousList prev)
        then ''touchmove'' else ''touchstart'')
   \<and> touches (fst (getEvent prev ts)) = ts
   \<and> touchCalls prev ts =
       (if previousList prev \<noteq> [] \<and> length ts \<le> length (previousList prev)
        then [fluidSimulation (sendTouchMove (createTouchEvent ''touchmove'' ts))]
        else [fluidSimulation (sendTouchStart (createTouchEvent ''touchstart'' ts))])
   \<and> previousTouches (fst (processResults st fr)) = Some (frameTouches fr)"
  using getEvent_type [of prev ts] touchCalls_eq [of prev ts]
  by (simp add: no_touchEnd_processFrames getEvent_touches previousTouches_processResults)

lemma gestureCoords_frameWith:
  "gestureCoords (frameWith l rt) (Some (handShowing shown px)) name =
     (if shown = name then Some \<lparr>pageX = px * 512, pageY = 128\<rparr> else None)"
  "gestureCoords fr None name = None"
  by (simp_all add: gestureCoords_handShowing gestureCoords_other hasGesture_handShowing)

lemma frameTouches_leftPalm: "frameTouches leftPalmFrame = [leftPalmTouch]"
  by (simp add: frameTouches_def leftPalmFrame_def hands_frameWith GESTURE_MATCH_def
      gestureCoords_frameWith palmTouch_def leftPalmTouch_def LEFT_HAND_EVENT_ID_def)

lemma processResults_leftPalm:
  "processResults \<lparr>leftHandHistory = [], rightHandHistory = [], magicBalls = [],
          previousTouches = prev\<rparr> leftPalmFrame =
     (\<lparr>leftHandHistory = [], rightHandHistory = [], magicBalls = [],
       previousTouches = Some [leftPalmTouch]\<rparr>,
      touchCalls prev [leftPalmTouch])"
  by (simp add: processResults_def Let_def leftPalmFrame_def hands_frameWith
      gestureCoords_frameWith GESTURE_MATCH_def FIST_GESTURE_def
      POINTING_GESTURE_def THUMB_UP_GESTURE_def fistCalls_def pointingCalls_def
      singleRayCalls_def palmCalls_def thumbUpBlock_def updateMagicBalls_eq survivors_def
      palmTouch_def leftPalmTouch_def LEFT_HAND_EVENT_ID_def)

theorem touchend_unreachable_witness:
  "snd (processFrames initialState [leftPalmFrame, leftPalmFrame]) =
     [fluidSimulation (sendTouchStart (createTouchEvent ''touchstart'' [leftPalmTouch])),
      fluidSimulation (sendTouchMove (createTouchEvent ''touchmove'' [leftPalmTouch]))]
   \<and> fluidSimulation (sendTouchEnd (createTouchEvent ''touchend'' [leftPalmTouch]))
       \<notin> set (snd (processFrames initialState [leftPalmFrame, leftPalmFrame]))"
proof -
  note never = touchend_unreachable [of initialState "[leftPalmFrame, leftPalmFrame]" None
      "[leftPalmTouch]" leftPalmFrame]
  note again = touchend_unreachable [of initialState "[leftPalmFrame, leftPalmFrame]"
      "Some [leftPalmTouch]" "[leftPalmTouch]" leftPalmFrame]
  from never have first: "touchCalls None [leftPalmTouch] =
      [fluidSimulation (sendTouchStart (createTouchEvent ''touchstart'' [leftPalmTouch]))]"
    by (simp add: previousList_def)
  from again have second: "touchCalls (Some [leftPalmTouch]) [leftPalmTouch] =
      [fluidSimulation (sendTouchMove (createTouchEvent ''touchmove'' [leftPalmTouch]))]"
    by (simp add: previousList_def)
  have run: "snd (processFrames initialState [leftPalmFrame, leftPalmFrame]) =
     [fluidSimulation (sendTouchStart (createTouchEvent ''touchstart'' [leftPalmTouch])),
      fluidSimulation (sendTouchMove (createTouchEvent ''touchmove'' [leftPalmTouch]))]"
    by (simp add: initialState_def processResults_leftPalm first second)
  from never have "fluidSimulation (sendTouchEnd (createTouchEvent ''touchend'' [leftPalmTouch]))
       \<notin> set (snd (processFrames initialState [leftPalmFrame, leftPalmFrame]))"
    by blast
  with run show ?thesis by blast
qed

end
